theory Spec2Isabelle
  imports Complex_Main "HOL-Library.AList" "HOL-Library.Log_Nat"
begin

section \<open>JavaScript numbers\<close>

text \<open>
  A Number is an IEEE double. A finite double is a rational, and the sum, difference or
  quotient of two doubles is the exact result rounded to the nearest double, ties to the
  even significand: \<open>fl\<close> rounds a rational to 53 significant bits (to a multiple of
  \<open>2^-1074\<close> in the subnormal range). \<open>exponent x\<close> is the integer \<open>e\<close> with
  \<open>2^e \<le> |x| < 2^(e+1)\<close>. Comparison of finite doubles is comparison of rationals.
  Results of magnitude \<open>2^1024\<close> and more, which the code holds as \<open>Infinity\<close>, and
  \<open>NaN\<close> have no counterpart here: the model covers finite numbers.
\<close>

definition pow2 :: "int \<Rightarrow> rat" where
  "pow2 z = (if 0 \<le> z then 2 ^ nat z else 1 / 2 ^ nat (- z))"

definition round_half_even :: "rat \<Rightarrow> int" where
  "round_half_even m =
     (let n = \<lfloor>m\<rfloor>; r = m - of_int n in
      if r < 1 / 2 then n else if 1 / 2 < r then n + 1 else if even n then n else n + 1)"

definition exponent :: "rat \<Rightarrow> int" where
  "exponent x =
     (if 1 \<le> \<bar>x\<bar> then bitlen \<lfloor>\<bar>x\<bar>\<rfloor> - 1 else - bitlen (\<lceil>1 / \<bar>x\<bar>\<rceil> - 1))"

definition fl :: "rat \<Rightarrow> rat" where
  "fl x =
     (if x = 0 then 0
      else let q = max (exponent x - 52) (- 1074) in
           sgn x * of_int (round_half_even (\<bar>x\<bar> / pow2 q)) * pow2 q)"

text \<open>\<open>a + b\<close>, \<open>a - b\<close> and \<open>a / b\<close> on Numbers.\<close>

definition js_add :: "rat \<Rightarrow> rat \<Rightarrow> rat" where
  "js_add a b = fl (a + b)"

definition js_sub :: "rat \<Rightarrow> rat \<Rightarrow> rat" where
  "js_sub a b = fl (a - b)"

definition js_div :: "rat \<Rightarrow> rat \<Rightarrow> rat" where
  "js_div a b = fl (a / b)"

section \<open>Data model\<close>

text \<open>
  The models of \<^verbatim>\<open>src/models/Transaction.js\<close>, \<^verbatim>\<open>src/models/User.js\<close> and the
  TransactionPin and Beneficiary schemas. The status and the transaction type are strings
  in the source; the datatypes
  list every literal the routes write, and the two \<open>enum\<close> lists are the ones of the
  schema, so a value outside the schema's list can be written to a document but does not
  pass validation when the document is saved.
\<close>

datatype status = Pending | Successful | Failed | Declined | Reversed | Cancelled

datatype transactionType = Send | Receive | Deposit | Withdraw | Wishlist | Withdrawal

definition status_enum :: "status list" where
  "status_enum = [Pending, Successful, Failed, Declined]"

definition transactionType_enum :: "transactionType list" where
  "transactionType_enum = [Send, Receive, Deposit, Withdraw, Wishlist]"

record transaction =
  userId :: string
  transactionType :: transactionType
  amount :: rat
  fee :: rat
  status :: status
  recipientId :: "string option"
  recipientName :: "string option"
  recipientCecureTag :: "string option"
  recipientBank :: "string option"
  recipientAccount :: "string option"
  purpose :: "string option"
  reference :: string

record user =
  firstName :: string
  lastName :: string
  cecureTag :: string
  balance :: rat
  paystackTransferRecipientCode :: "string option"

record beneficiary =
  ben_userId :: string
  ben_recipientName :: "string option"
  ben_bankName :: "string option"
  ben_accountNumber :: "string option"

text \<open>
  The database: the users collection keyed by \<open>_id\<close>, the transactions collection in
  insertion order (a document's position stands for its \<open>_id\<close>; nothing deletes a
  transaction), the TransactionPin collection keyed by \<open>userId\<close> (unique), and the
  beneficiaries.
\<close>

record store =
  users :: "(string \<times> user) list"
  transactions :: "transaction list"
  pins :: "(string \<times> string) list"
  beneficiaries :: "beneficiary list"

datatype db_error = ValidationError | DuplicateKey

datatype response = Reply nat string

section \<open>Collection operations\<close>

text \<open>\<open>User.findById\<close>. An id is the string of a well-formed ObjectId; for a malformed id
  the source throws and the route answers 500 where the model finds no user and answers
  404, the store being untouched in both cases.\<close>

definition User_findById :: "string \<Rightarrow> store \<Rightarrow> user option" where
  "User_findById uid st = map_of (users st) uid"

text \<open>\<open>doc.balance = b; await doc.save()\<close>: the save writes the modified path only.\<close>

definition User_save_balance :: "string \<Rightarrow> rat \<Rightarrow> store \<Rightarrow> store" where
  "User_save_balance uid b st =
     st\<lparr>users := AList.map_entry uid (\<lambda>u. u\<lparr>balance := b\<rparr>) (users st)\<rparr>"

definition User_save_recipientCode :: "string \<Rightarrow> string \<Rightarrow> store \<Rightarrow> store" where
  "User_save_recipientCode uid c st =
     st\<lparr>users := AList.map_entry uid (\<lambda>u. u\<lparr>paystackTransferRecipientCode := Some c\<rparr>) (users st)\<rparr>"

text \<open>The validators of TransactionSchema: the two enums and the required strings.\<close>

definition TransactionSchema_valid :: "transaction \<Rightarrow> bool" where
  "TransactionSchema_valid t =
     (userId t \<noteq> [] \<and> transactionType t \<in> set transactionType_enum
      \<and> status t \<in> set status_enum \<and> reference t \<noteq> [])"

text \<open>\<open>await new Transaction({...}).save()\<close>: validation, then the unique index on
  \<open>reference\<close>.\<close>

definition Transaction_create :: "transaction \<Rightarrow> store \<Rightarrow> db_error + store" where
  "Transaction_create t st =
     (if \<not> TransactionSchema_valid t then Inl ValidationError
      else if reference t \<in> set (map reference (transactions st)) then Inl DuplicateKey
      else Inr (st\<lparr>transactions := transactions st @ [t]\<rparr>))"

text \<open>\<open>Transaction.findOne(filter)\<close>: the position of the first matching document.\<close>

fun find_index_of :: "('a \<Rightarrow> bool) \<Rightarrow> 'a list \<Rightarrow> nat option" where
  "find_index_of P [] = None"
| "find_index_of P (x # xs) = (if P x then Some 0 else map_option Suc (find_index_of P xs))"

definition Transaction_findOne :: "(transaction \<Rightarrow> bool) \<Rightarrow> store \<Rightarrow> nat option" where
  "Transaction_findOne P st = find_index_of P (transactions st)"

text \<open>\<open>await transaction.save()\<close> on a loaded document: validation, then the write.\<close>

definition Transaction_save :: "nat \<Rightarrow> transaction \<Rightarrow> store \<Rightarrow> db_error + store" where
  "Transaction_save i t st =
     (if \<not> TransactionSchema_valid t then Inl ValidationError
      else Inr (st\<lparr>transactions := (transactions st)[i := t]\<rparr>))"

text \<open>\<open>Transaction.findOneAndUpdate(filter, { status })\<close>: no validators run; the first
  match is updated, and nothing happens without a match.\<close>

definition Transaction_findOneAndUpdate_status ::
  "(transaction \<Rightarrow> bool) \<Rightarrow> status \<Rightarrow> store \<Rightarrow> store" where
  "Transaction_findOneAndUpdate_status P s st =
     (case find_index_of P (transactions st) of
        None \<Rightarrow> st
      | Some i \<Rightarrow> st\<lparr>transactions := (transactions st)[i := (transactions st ! i)\<lparr>status := s\<rparr>]\<rparr>)"

text \<open>The Beneficiary schema requires \<open>recipientName\<close>.\<close>

definition notEmpty :: "string option \<Rightarrow> bool" where
  "notEmpty v = (case v of None \<Rightarrow> False | Some s \<Rightarrow> s \<noteq> [])"

text \<open>\<open>!v\<close> for a string field of a request.\<close>

definition missing :: "string option \<Rightarrow> bool" where
  "missing v = (\<not> notEmpty v)"

definition Beneficiary_create :: "beneficiary \<Rightarrow> store \<Rightarrow> db_error + store" where
  "Beneficiary_create b st =
     (if \<not> notEmpty (ben_recipientName b) then Inl ValidationError
      else Inr (st\<lparr>beneficiaries := beneficiaries st @ [b]\<rparr>))"

definition fullName :: "user \<Rightarrow> string" where
  "fullName u = firstName u @ '' '' @ lastName u"

section \<open>The ledger routes (\<^verbatim>\<open>routes/transactions.js\<close>)\<close>

text \<open>
  Each route runs inside a database session: every early return and every exception
  aborts the session, so the store returned with an error reply is the store the
  request found. \<open>comparePin\<close> is \<open>bcrypt.compare\<close>, \<open>uuid\<close> the value of \<open>uuidv4()\<close>
  and \<open>uid\<close> the authenticated \<open>req.user.id\<close>. A body field checked with \<open>isNumeric()\<close>
  is \<open>None\<close> when it is absent or not numeric, and otherwise carries the value of
  \<open>Number.parseFloat\<close>.
\<close>

record transfer_body =
  t_recipientId :: "string option"
  t_amount :: "rat option"
  t_purpose :: "string option"
  t_pin :: "string option"

record bankDetails =
  accountName :: "string option"
  bankName :: "string option"
  accountNumber :: "string option"
  saveBeneficiary :: bool

record bank_body =
  b_bankDetails :: "bankDetails option"
  b_amount :: "rat option"
  b_pin :: "string option"

definition transfer_fee :: rat where
  "transfer_fee = 25"

text \<open>The \<open>check(...)\<close> validators of \<open>/transfer\<close>, and of \<open>/bank-transfer\<close> and
  \<open>/withdraw\<close>.\<close>

definition transfer_checks :: "transfer_body \<Rightarrow> bool" where
  "transfer_checks b =
     (notEmpty (t_recipientId b) \<and> t_amount b \<noteq> None \<and> notEmpty (t_pin b) \<and> notEmpty (t_purpose b))"

definition bank_checks :: "bank_body \<Rightarrow> bool" where
  "bank_checks b = (b_bankDetails b \<noteq> None \<and> b_amount b \<noteq> None \<and> notEmpty (b_pin b))"

definition transfer ::
  "(string \<Rightarrow> string \<Rightarrow> bool) \<Rightarrow> string \<Rightarrow> string \<Rightarrow> transfer_body \<Rightarrow> store \<Rightarrow> response \<times> store" where
  "transfer comparePin uuid uid b st =
     (if \<not> transfer_checks b
      then (Reply 400 ''errors'', st)
      else
        let amt = the (t_amount b); fee = transfer_fee in
        case map_of (pins st) uid of
          None \<Rightarrow> (Reply 400 ''Transaction PIN not set'', st)
        | Some pinHash \<Rightarrow>
            if \<not> comparePin (the (t_pin b)) pinHash then (Reply 400 ''Invalid transaction PIN'', st)
            else
              case User_findById uid st of
                None \<Rightarrow> (Reply 404 ''Sender not found'', st)
              | Some sender \<Rightarrow>
                  if balance sender < js_add amt fee then (Reply 400 ''Insufficient balance'', st)
                  else
                    case User_findById (the (t_recipientId b)) st of
                      None \<Rightarrow> (Reply 404 ''Recipient not found'', st)
                    | Some recipient \<Rightarrow>
                        let ref = ''TRX-'' @ take 8 uuid;
                            st1 = User_save_balance uid (js_sub (balance sender) (js_add amt fee)) st;
                            st2 = User_save_balance (the (t_recipientId b)) (js_add (balance recipient) amt) st1;
                            senderTransaction =
                              \<lparr>userId = uid, transactionType = Send, amount = amt, fee = fee,
                               status = Successful, recipientId = t_recipientId b,
                               recipientName = Some (fullName recipient),
                               recipientCecureTag = Some (cecureTag recipient),
                               recipientBank = None, recipientAccount = None,
                               purpose = t_purpose b, reference = ref\<rparr>;
                            recipientTransaction =
                              \<lparr>userId = the (t_recipientId b), transactionType = Receive, amount = amt,
                               fee = 0, status = Successful, recipientId = Some uid,
                               recipientName = Some (fullName sender),
                               recipientCecureTag = None,
                               recipientBank = None, recipientAccount = None,
                               purpose = t_purpose b, reference = ref @ ''-RCV''\<rparr>
                        in
                          case Transaction_create senderTransaction st2 of
                            Inl e \<Rightarrow> (Reply 500 ''Server error'', st)
                          | Inr st3 \<Rightarrow>
                              (case Transaction_create recipientTransaction st3 of
                                 Inl e \<Rightarrow> (Reply 500 ''Server error'', st)
                               | Inr st4 \<Rightarrow> (Reply 200 ref, st4)))"

text \<open>The tail shared by \<open>/bank-transfer\<close> and \<open>/withdraw\<close>: the optional beneficiary,
  then the commit.\<close>

definition save_beneficiary_and_commit ::
  "string \<Rightarrow> bankDetails \<Rightarrow> string \<Rightarrow> store \<Rightarrow> store \<Rightarrow> response \<times> store" where
  "save_beneficiary_and_commit uid bd ref st0 st =
     (if saveBeneficiary bd then
        (case Beneficiary_create
                \<lparr>ben_userId = uid, ben_recipientName = accountName bd,
                 ben_bankName = bankName bd, ben_accountNumber = accountNumber bd\<rparr> st of
           Inl e \<Rightarrow> (Reply 500 ''Server error'', st0)
         | Inr st' \<Rightarrow> (Reply 200 ref, st'))
      else (Reply 200 ref, st))"

definition debit_to_bank ::
  "string \<Rightarrow> transactionType \<Rightarrow> string \<Rightarrow> (string \<Rightarrow> string \<Rightarrow> bool) \<Rightarrow> string \<Rightarrow> string \<Rightarrow> bank_body \<Rightarrow> store
     \<Rightarrow> response \<times> store" where
  "debit_to_bank prefix ty label comparePin uuid uid b st =
     (if \<not> bank_checks b
      then (Reply 400 ''errors'', st)
      else
        let amt = the (b_amount b); bd = the (b_bankDetails b); fee = transfer_fee in
        case map_of (pins st) uid of
          None \<Rightarrow> (Reply 400 ''Transaction PIN not set'', st)
        | Some pinHash \<Rightarrow>
            if \<not> comparePin (the (b_pin b)) pinHash then (Reply 400 ''Invalid transaction PIN'', st)
            else
              case User_findById uid st of
                None \<Rightarrow> (Reply 404 ''User not found'', st)
              | Some u \<Rightarrow>
                  if balance u < js_add amt fee then (Reply 400 ''Insufficient balance'', st)
                  else
                    let ref = prefix @ take 8 uuid;
                        st1 = User_save_balance uid (js_sub (balance u) (js_add amt fee)) st
                    in
                      case Transaction_create
                             \<lparr>userId = uid, transactionType = ty, amount = amt, fee = fee,
                              status = Successful, recipientId = None,
                              recipientName = accountName bd, recipientCecureTag = None,
                              recipientBank = bankName bd, recipientAccount = accountNumber bd,
                              purpose = Some label, reference = ref\<rparr> st1 of
                        Inl e \<Rightarrow> (Reply 500 ''Server error'', st)
                      | Inr st2 \<Rightarrow> save_beneficiary_and_commit uid bd ref st st2)"

text \<open>\<open>POST /bank-transfer\<close> and \<open>POST /withdraw\<close> are the same code up to the reference
  prefix, the transaction type and the purpose.\<close>

definition bank_transfer ::
  "(string \<Rightarrow> string \<Rightarrow> bool) \<Rightarrow> string \<Rightarrow> string \<Rightarrow> bank_body \<Rightarrow> store \<Rightarrow> response \<times> store" where
  "bank_transfer = debit_to_bank ''BNK-'' Send ''Bank Transfer''"

definition withdraw ::
  "(string \<Rightarrow> string \<Rightarrow> bool) \<Rightarrow> string \<Rightarrow> string \<Rightarrow> bank_body \<Rightarrow> store \<Rightarrow> response \<times> store" where
  "withdraw = debit_to_bank ''WTH-'' Withdraw ''Withdrawal''"

definition deposit_tx :: "string \<Rightarrow> rat \<Rightarrow> string \<Rightarrow> string \<Rightarrow> transaction" where
  "deposit_tx uid amt label ref =
     \<lparr>userId = uid, transactionType = Deposit, amount = amt, fee = 0, status = Successful,
      recipientId = None, recipientName = None, recipientCecureTag = None,
      recipientBank = None, recipientAccount = None, purpose = Some label, reference = ref\<rparr>"

definition deposit ::
  "string \<Rightarrow> string \<Rightarrow> rat option \<Rightarrow> string option \<Rightarrow> store \<Rightarrow> response \<times> store" where
  "deposit uuid uid amount_field method st =
     (if \<not> (amount_field \<noteq> None \<and> notEmpty method) then (Reply 400 ''errors'', st)
      else
        case User_findById uid st of
          None \<Rightarrow> (Reply 404 ''User not found'', st)
        | Some u \<Rightarrow>
            let ref = ''DEP-'' @ take 8 uuid;
                st1 = User_save_balance uid (js_add (balance u) (the amount_field)) st
            in
              case Transaction_create
                     (deposit_tx uid (the amount_field) (''Deposit via '' @ the method) ref) st1 of
                Inl e \<Rightarrow> (Reply 500 ''Server error'', st)
              | Inr st2 \<Rightarrow> (Reply 200 ref, st2))"

definition confirm_deposit ::
  "string \<Rightarrow> string option \<Rightarrow> rat option \<Rightarrow> store \<Rightarrow> response \<times> store" where
  "confirm_deposit uid reference_field amount_field st =
     (if \<not> (notEmpty reference_field \<and> amount_field \<noteq> None) then (Reply 400 ''errors'', st)
      else
        case User_findById uid st of
          None \<Rightarrow> (Reply 404 ''User not found'', st)
        | Some u \<Rightarrow>
            (case Transaction_findOne (\<lambda>t. reference t = the reference_field) st of
               Some i \<Rightarrow> (Reply 400 ''Transaction already processed'', st)
             | None \<Rightarrow>
                 let st1 = User_save_balance uid (js_add (balance u) (the amount_field)) st in
                 case Transaction_create
                        (deposit_tx uid (the amount_field) ''Deposit via Paystack'' (the reference_field)) st1 of
                   Inl e \<Rightarrow> (Reply 500 ''Server error'', st)
                 | Inr st2 \<Rightarrow> (Reply 200 (the reference_field), st2)))"

section \<open>The bank-transfer deposit routes\<close>

text \<open>
  \<open>POST /bank-transfer/initiate\<close>, \<open>/cancel\<close> and \<open>/confirm\<close>. These routes and the
  payment routes below open no session: each \<open>save()\<close> is durable at once, and an
  exception leaves the earlier writes in place. \<open>!amount\<close> holds of an absent amount and
  of zero.
\<close>

definition falsy :: "rat option \<Rightarrow> bool" where
  "falsy a = (a = None \<or> a = Some 0)"

definition bank_transfer_initiate ::
  "string \<Rightarrow> rat option \<Rightarrow> string option \<Rightarrow> store \<Rightarrow> response \<times> store" where
  "bank_transfer_initiate uid amount_field reference_field st =
     (if falsy amount_field \<or> the amount_field \<le> 0 then (Reply 400 ''Valid amount is required'', st)
      else if missing reference_field then (Reply 400 ''Reference is required'', st)
      else
        case User_findById uid st of
          None \<Rightarrow> (Reply 404 ''User not found'', st)
        | Some u \<Rightarrow>
            (case Transaction_create
                    ((deposit_tx uid (the amount_field) ''Bank Transfer Deposit'' (the reference_field))
                       \<lparr>status := Pending\<rparr>) st of
               Inl e \<Rightarrow> (Reply 500 ''Server error'', st)
             | Inr st1 \<Rightarrow> (Reply 200 ''Bank transfer deposit initiated'', st1)))"

definition bank_transfer_cancel :: "string \<Rightarrow> string option \<Rightarrow> store \<Rightarrow> response \<times> store" where
  "bank_transfer_cancel uid reference_field st =
     (if missing reference_field then (Reply 400 ''Reference is required'', st)
      else
        case Transaction_findOne
               (\<lambda>t. reference t = the reference_field \<and> userId t = uid
                     \<and> transactionType t = Deposit \<and> status t = Pending) st of
          None \<Rightarrow> (Reply 404 ''Transaction not found'', st)
        | Some i \<Rightarrow>
            (case Transaction_save i ((transactions st ! i)\<lparr>status := Cancelled\<rparr>) st of
               Inl e \<Rightarrow> (Reply 500 ''Server error'', st)
             | Inr st1 \<Rightarrow> (Reply 200 ''Bank transfer deposit cancelled'', st1)))"

definition bank_transfer_confirm :: "string option \<Rightarrow> store \<Rightarrow> response \<times> store" where
  "bank_transfer_confirm reference_field st =
     (if missing reference_field then (Reply 400 ''Reference is required'', st)
      else
        case Transaction_findOne
               (\<lambda>t. reference t = the reference_field
                     \<and> transactionType t = Deposit \<and> status t = Pending) st of
          None \<Rightarrow> (Reply 404 ''Transaction not found'', st)
        | Some i \<Rightarrow>
            let tx = transactions st ! i in
            (case User_findById (userId tx) st of
               None \<Rightarrow> (Reply 404 ''User not found'', st)
             | Some u \<Rightarrow>
                 (case Transaction_save i (tx\<lparr>status := Successful\<rparr>) st of
                    Inl e \<Rightarrow> (Reply 500 ''Server error'', st)
                  | Inr st1 \<Rightarrow>
                      (Reply 200 ''Bank transfer deposit confirmed'',
                       User_save_balance (userId tx) (js_add (balance u) (amount tx)) st1))))"

section \<open>The payment routes (the routes file with the provider webhook)\<close>

text \<open>
  A call of \<open>paystackRequest\<close> is an input of the model: \<open>None\<close> when the request throws,
  otherwise the \<open>status\<close> flag of the response and the code its \<open>data\<close> carries
  (\<open>recipient_code\<close>, \<open>transfer_code\<close> or \<open>reference\<close>). These routes use the amount of
  the body as it is, without parsing it: the model takes it to be a JSON number.
\<close>

record paystack_response =
  ps_status :: bool
  ps_code :: string

definition orElse :: "string option \<Rightarrow> string \<Rightarrow> string" where
  "orElse v d = (if notEmpty v then the v else d)"

definition payments_withdraw ::
  "paystack_response option \<Rightarrow> paystack_response option \<Rightarrow> string \<Rightarrow> rat option \<Rightarrow> string option
     \<Rightarrow> string option \<Rightarrow> string option \<Rightarrow> string option \<Rightarrow> store \<Rightarrow> response \<times> store" where
  "payments_withdraw recipientResponse transferResponse uid amount_field bank_code account_number
       account_name narration st =
     (if falsy amount_field \<or> missing bank_code \<or> missing account_number \<or> missing account_name
      then (Reply 400 ''Amount, bank code, account number, and account name are required'', st)
      else
        case User_findById uid st of
          None \<Rightarrow> (Reply 404 ''User not found'', st)
        | Some u \<Rightarrow>
            if balance u < the amount_field then (Reply 400 ''Insufficient balance'', st)
            else
              case recipientResponse of
                None \<Rightarrow> (Reply 500 ''Server error processing withdrawal'', st)
              | Some rr \<Rightarrow>
                  if \<not> ps_status rr then (Reply 400 ''Failed to create transfer recipient'', st)
                  else
                    case transferResponse of
                      None \<Rightarrow> (Reply 500 ''Server error processing withdrawal'', st)
                    | Some tr \<Rightarrow>
                        if \<not> ps_status tr then (Reply 400 ''Failed to initiate transfer'', st)
                        else
                          let st1 = User_save_balance uid (js_sub (balance u) (the amount_field)) st in
                          case Transaction_create
                                 \<lparr>userId = uid, transactionType = Withdrawal, amount = the amount_field,
                                  fee = 0, status = Pending, recipientId = None,
                                  recipientName = account_name, recipientCecureTag = None,
                                  recipientBank = None, recipientAccount = None,
                                  purpose = Some (orElse narration ''Withdrawal''),
                                  reference = ps_code tr\<rparr> st1 of
                            Inl e \<Rightarrow> (Reply 500 ''Server error processing withdrawal'', st1)
                          | Inr st2 \<Rightarrow> (Reply 200 ''Withdrawal initiated successfully'', st2))"

text \<open>\<open>POST /charge-card\<close>; \<open>cardFound\<close> is the outcome of \<open>Card.findOne\<close>.\<close>

definition payments_charge_card ::
  "bool \<Rightarrow> paystack_response option \<Rightarrow> string \<Rightarrow> rat option \<Rightarrow> string option \<Rightarrow> string option
     \<Rightarrow> store \<Rightarrow> response \<times> store" where
  "payments_charge_card cardFound chargeResponse uid amount_field email cardId st =
     (if falsy amount_field \<or> the amount_field \<le> 0 then (Reply 400 ''Valid amount is required'', st)
      else if missing email then (Reply 400 ''Email is required'', st)
      else if missing cardId then (Reply 400 ''Card ID is required'', st)
      else if \<not> cardFound then (Reply 404 ''Card not found'', st)
      else
        case chargeResponse of
          None \<Rightarrow> (Reply 500 ''Server error'', st)
        | Some cr \<Rightarrow>
            if \<not> ps_status cr then (Reply 400 ''Payment failed'', st)
            else
              case User_findById uid st of
                None \<Rightarrow> (Reply 404 ''User not found'', st)
              | Some u \<Rightarrow>
                  let st1 = User_save_balance uid (js_add (balance u) (the amount_field)) st in
                  case Transaction_create
                         (deposit_tx uid (the amount_field) ''Deposit via saved card'' (ps_code cr)) st1 of
                    Inl e \<Rightarrow> (Reply 500 ''Server error'', st1)
                  | Inr st2 \<Rightarrow> (Reply 200 (ps_code cr), st2))"

text \<open>\<open>GET /callback\<close>: \<open>paystackResponse\<close> is the provider's answer to the verify
  call, with the status, the amount in kobo and \<open>metadata.userId\<close>.\<close>

record verify_response =
  v_status :: string
  v_amount :: rat
  v_userId :: "string option"

definition payments_callback ::
  "verify_response option \<Rightarrow> string option \<Rightarrow> store \<Rightarrow> response \<times> store" where
  "payments_callback paystackResponse reference_field st =
     (if missing reference_field then (Reply 400 ''Payment reference is required'', st)
      else
        case paystackResponse of
          None \<Rightarrow> (Reply 302 ''deposit-failed'', st)
        | Some pr \<Rightarrow>
            if v_status pr = ''success'' then
              let amountInNaira = js_div (v_amount pr) 100 in
              case (case v_userId pr of None \<Rightarrow> None | Some uid \<Rightarrow> User_findById uid st) of
                None \<Rightarrow> (Reply 404 ''User not found'', st)
              | Some u \<Rightarrow>
                  (case Transaction_findOne (\<lambda>t. reference t = the reference_field) st of
                     Some i \<Rightarrow> (Reply 302 ''deposit-success'', st)
                   | None \<Rightarrow>
                       let st1 = User_save_balance (the (v_userId pr)) (js_add (balance u) amountInNaira) st in
                       case Transaction_create
                              (deposit_tx (the (v_userId pr)) amountInNaira ''Deposit via Paystack''
                                 (the reference_field)) st1 of
                         Inl e \<Rightarrow> (Reply 302 ''deposit-failed'', st1)
                       | Inr st2 \<Rightarrow> (Reply 302 ''deposit-success'', st2))
            else (Reply 302 ''deposit-failed'', st))"

text \<open>\<open>POST /transfer\<close> of the payment routes: a transfer between two users that is also
  sent to the provider. Both user documents are loaded before either is saved.\<close>

definition payments_transfer ::
  "paystack_response option \<Rightarrow> paystack_response option \<Rightarrow> string \<Rightarrow> string option \<Rightarrow> rat option
     \<Rightarrow> string option \<Rightarrow> store \<Rightarrow> response \<times> store" where
  "payments_transfer recipientResponse transferResponse uid recipientId_field amount_field reason st =
     (if missing recipientId_field \<or> falsy amount_field \<or> the amount_field \<le> 0
      then (Reply 400 ''Recipient ID and valid amount are required'', st)
      else
        let rid = the recipientId_field; amt = the amount_field in
        case User_findById uid st of
          None \<Rightarrow> (Reply 404 ''Sender not found'', st)
        | Some sender \<Rightarrow>
            if balance sender < amt then (Reply 400 ''Insufficient balance'', st)
            else
              case User_findById rid st of
                None \<Rightarrow> (Reply 404 ''Recipient not found'', st)
              | Some recipient \<Rightarrow>
                  (case (if notEmpty (paystackTransferRecipientCode recipient) then Some st
                         else (case recipientResponse of
                                 None \<Rightarrow> None
                               | Some rr \<Rightarrow> Some (User_save_recipientCode rid (ps_code rr) st))) of
                     None \<Rightarrow> (Reply 500 ''Server error'', st)
                   | Some st0 \<Rightarrow>
                       (case transferResponse of
                          None \<Rightarrow> (Reply 500 ''Server error'', st0)
                        | Some tr \<Rightarrow>
                            if \<not> ps_status tr then (Reply 400 ''Failed to initiate transfer'', st0)
                            else
                              let st1 = User_save_balance uid (js_sub (balance sender) amt) st0;
                                  st2 = User_save_balance rid (js_add (balance recipient) amt) st1;
                                  ref = ps_code tr;
                                  senderTransaction =
                                    \<lparr>userId = uid, transactionType = Send, amount = amt, fee = 0,
                                     status = Successful, recipientId = Some rid,
                                     recipientName = Some (fullName recipient),
                                     recipientCecureTag = None, recipientBank = None,
                                     recipientAccount = None,
                                     purpose = Some (orElse reason ''Transfer''), reference = ref\<rparr>;
                                  recipientTransaction =
                                    \<lparr>userId = rid, transactionType = Receive, amount = amt, fee = 0,
                                     status = Successful, recipientId = Some uid,
                                     recipientName = Some (fullName sender),
                                     recipientCecureTag = None, recipientBank = None,
                                     recipientAccount = None,
                                     purpose = Some (orElse reason ''Transfer''),
                                     reference = ref @ ''-RCV''\<rparr>
                              in
                                case Transaction_create senderTransaction st2 of
                                  Inl e \<Rightarrow> (Reply 500 ''Server error'', st2)
                                | Inr st3 \<Rightarrow>
                                    (case Transaction_create recipientTransaction st3 of
                                       Inl e \<Rightarrow> (Reply 500 ''Server error'', st3)
                                     | Inr st4 \<Rightarrow> (Reply 200 ref, st4)))))"

section \<open>The provider webhook\<close>

text \<open>
  The event as the handler reads it from \<open>req.body\<close>: the event name and \<open>data\<close> with its
  \<open>reference\<close>, \<open>amount\<close> (in kobo), \<open>reason\<close> and \<open>metadata\<close>. \<open>raw\<close> is the byte
  string the provider sent and \<open>body\<close> its parsed form: the server installs
  \<open>express.json()\<close> for every route, so the handler receives the parsed object and the
  route's own \<open>express.raw\<close> finds the body already read. \<open>signature\<close> is the
  \<open>x-paystack-signature\<close> header.
\<close>

record metadata =
  m_userId :: "string option"
  m_originalReference :: "string option"

record event_data =
  d_reference :: string
  d_amount :: rat
  d_reason :: "string option"
  d_metadata :: "metadata option"

record event =
  ev_event :: string
  ev_data :: "event_data option"

record webhook_request =
  raw :: string
  body :: event
  signature :: "string option"

text \<open>A failed \<open>transaction.save()\<close> after the balance write is caught and logged: the
  credit stays.\<close>

definition handleSuccessfulPayment :: "event_data \<Rightarrow> store \<Rightarrow> store" where
  "handleSuccessfulPayment d st =
     (case d_metadata d of
        None \<Rightarrow> st
      | Some md \<Rightarrow>
          if \<not> notEmpty (m_userId md) then st
          else
            let uid = the (m_userId md); amountInNaira = js_div (d_amount d) 100 in
            case User_findById uid st of
              None \<Rightarrow> st
            | Some u \<Rightarrow>
                (case Transaction_findOne (\<lambda>t. reference t = d_reference d) st of
                   Some i \<Rightarrow> st
                 | None \<Rightarrow>
                     let st1 = User_save_balance uid (js_add (balance u) amountInNaira) st in
                     case Transaction_create
                            (deposit_tx uid amountInNaira ''Deposit via Paystack'' (d_reference d)) st1 of
                       Inl e \<Rightarrow> st1
                     | Inr st2 \<Rightarrow> st2))"

definition handleSuccessfulTransfer :: "event_data \<Rightarrow> store \<Rightarrow> store" where
  "handleSuccessfulTransfer d st =
     (case d_metadata d of
        None \<Rightarrow> st
      | Some md \<Rightarrow>
          if \<not> notEmpty (m_userId md) then st
          else Transaction_findOneAndUpdate_status
                 (\<lambda>t. Some (reference t) = m_originalReference md) Successful st)"

text \<open>\<open>transaction.notes\<close> is no path of the schema, so the assignment is not stored.\<close>

definition handleFailedTransfer :: "event_data \<Rightarrow> store \<Rightarrow> store" where
  "handleFailedTransfer d st =
     (case Transaction_findOne (\<lambda>t. reference t = d_reference d) st of
        None \<Rightarrow> st
      | Some i \<Rightarrow>
          let tx = transactions st ! i in
          case Transaction_save i (tx\<lparr>status := Failed\<rparr>) st of
            Inl e \<Rightarrow> st
          | Inr st1 \<Rightarrow>
              (case User_findById (userId tx) st1 of
                 None \<Rightarrow> st1
               | Some sender \<Rightarrow> User_save_balance (userId tx) (js_add (balance sender) (amount tx)) st1))"

definition handleReversedTransfer :: "event_data \<Rightarrow> store \<Rightarrow> store" where
  "handleReversedTransfer d st =
     (case Transaction_findOne (\<lambda>t. reference t = d_reference d) st of
        None \<Rightarrow> st
      | Some i \<Rightarrow>
          let tx = transactions st ! i in
          case Transaction_save i (tx\<lparr>status := Reversed\<rparr>) st of
            Inl e \<Rightarrow> st
          | Inr st1 \<Rightarrow>
              let st2 = (case User_findById (userId tx) st1 of
                           None \<Rightarrow> st1
                         | Some sender \<Rightarrow>
                             User_save_balance (userId tx) (js_add (balance sender) (amount tx)) st1)
              in
                case recipientId tx of
                  None \<Rightarrow> st2
                | Some rid \<Rightarrow>
                    (case User_findById rid st2 of
                       None \<Rightarrow> st2
                     | Some recipient \<Rightarrow> User_save_balance rid (js_sub (balance recipient) (amount tx)) st2))"

text \<open>The \<open>switch\<close> on the event name. A handler given no \<open>data\<close> throws while it
  destructures, inside its own \<open>try\<close>.\<close>

definition dispatch :: "event \<Rightarrow> store \<Rightarrow> store" where
  "dispatch e st =
     (case ev_data e of
        None \<Rightarrow> st
      | Some d \<Rightarrow>
          if ev_event e = ''charge.success'' then handleSuccessfulPayment d st
          else if ev_event e = ''transfer.success'' then handleSuccessfulTransfer d st
          else if ev_event e = ''transfer.failed'' then handleFailedTransfer d st
          else if ev_event e = ''transfer.reversed'' then handleReversedTransfer d st
          else st)"

text \<open>
  \<open>POST /webhook\<close>. \<open>hmac\<close> is \<open>crypto.createHmac("sha512", key).update(msg).digest("hex")\<close>
  and \<open>stringify\<close> is \<open>JSON.stringify\<close>; both are parameters. The message that is hashed
  is \<open>JSON.stringify(req.body)\<close>. A missing header is \<open>None\<close> and never equals the hash.
\<close>

definition signed_payload :: "(event \<Rightarrow> string) \<Rightarrow> webhook_request \<Rightarrow> string" where
  "signed_payload stringify req = stringify (body req)"

definition webhook ::
  "(string \<Rightarrow> string \<Rightarrow> string) \<Rightarrow> (event \<Rightarrow> string) \<Rightarrow> string \<Rightarrow> webhook_request \<Rightarrow> store
     \<Rightarrow> response \<times> store" where
  "webhook hmac stringify secret req st =
     (if Some (hmac secret (signed_payload stringify req)) \<noteq> signature req
      then (Reply 400 ''Invalid signature'', st)
      else (Reply 200 ''Webhook received'', dispatch (body req) st))"

section \<open>The transaction PIN (\<open>POST /transaction-pin\<close> and the TransactionPin schema)\<close>

text \<open>
  The route assigns the plaintext to \<open>pinHash\<close> and saves; the schema's pre-save hook
  replaces a modified \<open>pinHash\<close> by \<open>bcrypt.hash(pinHash, salt)\<close>. \<open>bcrypt_hash\<close> and the
  salt of \<open>bcrypt.genSalt(10)\<close> are parameters. Assigning the value a path already has
  does not mark it modified.
\<close>

definition TransactionPin_pre_save ::
  "(string \<Rightarrow> string \<Rightarrow> string) \<Rightarrow> string \<Rightarrow> bool \<Rightarrow> string \<Rightarrow> string" where
  "TransactionPin_pre_save bcrypt_hash salt isModified pinHash =
     (if \<not> isModified then pinHash else bcrypt_hash pinHash salt)"

definition set_transaction_pin ::
  "(string \<Rightarrow> string \<Rightarrow> string) \<Rightarrow> string \<Rightarrow> string \<Rightarrow> string option \<Rightarrow> store \<Rightarrow> response \<times> store" where
  "set_transaction_pin bcrypt_hash salt uid pin st =
     (if \<not> (case pin of None \<Rightarrow> False | Some p \<Rightarrow> 4 \<le> length p \<and> length p \<le> 6)
      then (Reply 400 ''errors'', st)
      else
        let isModified = (case map_of (pins st) uid of None \<Rightarrow> True | Some old \<Rightarrow> the pin \<noteq> old) in
        (Reply 200 ''Transaction PIN set successfully'',
         st\<lparr>pins := AList.update uid (TransactionPin_pre_save bcrypt_hash salt isModified (the pin)) (pins st)\<rparr>))"

section \<open>Observations and example data\<close>

text \<open>The balance of an account, if the account exists.\<close>

definition balance_of :: "string \<Rightarrow> store \<Rightarrow> rat option" where
  "balance_of uid st = map_option balance (User_findById uid st)"

text \<open>A store with two accounts, used to run the routes on concrete requests.\<close>

definition example_user :: "string \<Rightarrow> rat \<Rightarrow> user" where
  "example_user n b =
     \<lparr>firstName = n, lastName = ''Doe'', cecureTag = ''@'' @ n, balance = b,
      paystackTransferRecipientCode = Some ''RCP_1''\<rparr>"

definition example_store :: "rat \<Rightarrow> rat \<Rightarrow> store" where
  "example_store a b =
     \<lparr>users = [(''A'', example_user ''Ada'' a), (''B'', example_user ''Bob'' b)],
      transactions = [], pins = [(''A'', ''$2a$10$hash'')], beneficiaries = []\<rparr>"

definition example_comparePin :: "string \<Rightarrow> string \<Rightarrow> bool" where
  "example_comparePin candidate h = (candidate = ''1234'' \<and> h = ''$2a$10$hash'')"

definition example_bankDetails :: bankDetails where
  "example_bankDetails =
     \<lparr>accountName = Some ''Ada Doe'', bankName = Some ''Access Bank'',
      accountNumber = Some ''0123456789'', saveBeneficiary = False\<rparr>"

text \<open>A stand-in for \<open>bcrypt.hash\<close> with the shape of its output (a version and cost
  prefix, then salt and digest), used to run the PIN route on concrete requests.\<close>

definition example_bcrypt_hash :: "string \<Rightarrow> string \<Rightarrow> string" where
  "example_bcrypt_hash p s = ''$2a$10$'' @ s @ p"

text \<open>Stand-ins for the HMAC and for \<open>JSON.stringify\<close> (a compact rendering of the event
  name and the reference), used to run the webhook on concrete requests.\<close>

definition example_hmac :: "string \<Rightarrow> string \<Rightarrow> string" where
  "example_hmac k m = k @ '':'' @ m"

definition example_stringify :: "event \<Rightarrow> string" where
  \<open>example_stringify e =
     ''{"event":"'' @ ev_event e @ ''"''
       @ (case ev_data e of
            None \<Rightarrow> []
          | Some d \<Rightarrow> '',"data":{"reference":"'' @ d_reference d @ ''"}'')
       @ ''}''\<close>

text \<open>The ledger after a provider-backed transfer of 100 from A to B out of
  \<open>example_store 500 500\<close>, the provider events about that transfer, and a request whose
  signature is the one the handler computes.\<close>

definition example_transfer_response :: paystack_response where
  "example_transfer_response = \<lparr>ps_status = True, ps_code = ''TRF_1''\<rparr>"

definition example_send_tx :: transaction where
  "example_send_tx =
     \<lparr>userId = ''A'', transactionType = Send, amount = 100, fee = 0, status = Successful,
      recipientId = Some ''B'', recipientName = Some ''Bob Doe'', recipientCecureTag = None,
      recipientBank = None, recipientAccount = None, purpose = Some ''Transfer'',
      reference = ''TRF_1''\<rparr>"

definition example_receive_tx :: transaction where
  "example_receive_tx =
     \<lparr>userId = ''B'', transactionType = Receive, amount = 100, fee = 0, status = Successful,
      recipientId = Some ''A'', recipientName = Some ''Ada Doe'', recipientCecureTag = None,
      recipientBank = None, recipientAccount = None, purpose = Some ''Transfer'',
      reference = ''TRF_1-RCV''\<rparr>"

definition example_ledger :: store where
  "example_ledger = (example_store 400 600)\<lparr>transactions := [example_send_tx, example_receive_tx]\<rparr>"

definition example_pending_ledger :: store where
  "example_pending_ledger =
     (example_store 400 500)\<lparr>transactions := [example_send_tx\<lparr>status := Pending\<rparr>, example_receive_tx]\<rparr>"

definition transfer_event :: "string \<Rightarrow> rat \<Rightarrow> metadata option \<Rightarrow> event" where
  "transfer_event kind kobo md =
     \<lparr>ev_event = kind,
      ev_data = Some \<lparr>d_reference = ''TRF_1'', d_amount = kobo, d_reason = None, d_metadata = md\<rparr>\<rparr>"

definition signed_request ::
  "(string \<Rightarrow> string \<Rightarrow> string) \<Rightarrow> (event \<Rightarrow> string) \<Rightarrow> string \<Rightarrow> event \<Rightarrow> webhook_request" where
  "signed_request hmac stringify secret e =
     \<lparr>raw = stringify e, body = e, signature = Some (hmac secret (stringify e))\<rparr>"

text \<open>The records a request appended: those beyond the length of the collection it found.\<close>

definition created :: "store \<Rightarrow> store \<Rightarrow> transaction list" where
  "created st st' = drop (length (transactions st)) (transactions st')"

text \<open>A reply with status 200.\<close>

definition ok :: "response \<Rightarrow> bool" where
  "ok r = (case r of Reply code message \<Rightarrow> code = 200)"

section \<open>Basic facts about the collections\<close>

text \<open>The arithmetic of the examples, evaluated.\<close>

lemma js_eval:
  "js_add 200 25 = 225" "js_sub 500 225 = 275" "js_add 500 200 = 700"
  "js_add 150 25 = 175" "js_add 100 25 = 125" "js_sub 500 125 = 375"
  "js_sub 500 100 = 400" "js_add 500 100 = 600" "js_add 400 100 = 500" "js_add 600 100 = 700"
  "js_add (- 100) 25 = - 75" "js_sub 500 (- 75) = 575" "js_add 500 (- 100) = 400"
  "js_add 500 (- 50) = 450" "js_add 0 100 = 100" "js_div 10000 100 = 100"
  "js_add 9007199254740968 25 = 9007199254740992"
  "js_sub 9007199254740992 9007199254740992 = 0"
  by code_simp+






lemma User_findById_save_balance:
  "User_findById v (User_save_balance uid b st) =
     (if v = uid then map_option (\<lambda>u. u\<lparr>balance := b\<rparr>) (User_findById uid st) else User_findById v st)"
  by (auto simp: User_findById_def User_save_balance_def map_of_map_entry split: option.splits)

lemma save_balance_fields [simp]:
  "transactions (User_save_balance uid b st) = transactions st"
  "pins (User_save_balance uid b st) = pins st"
  "beneficiaries (User_save_balance uid b st) = beneficiaries st"
  by (simp_all add: User_save_balance_def)

lemma User_findById_upd [simp]:
  "User_findById u (st\<lparr>transactions := x\<rparr>) = User_findById u st"
  "User_findById u (st\<lparr>beneficiaries := y\<rparr>) = User_findById u st"
  "User_findById u (st\<lparr>pins := z\<rparr>) = User_findById u st"
  by (simp_all add: User_findById_def)

section \<open>The transfer scenario\<close>

text \<open>
  Claim C6. A transfer of 200 from account A to a different account B, both holding 500,
  with a valid PIN and references that are not taken yet, succeeds: A holds 275 (amount and
  the fee of 25 debited), B holds 700 (amount only), no other balance moves, and exactly two
  records are appended, both successful, the recipient's reference being the sender's
  followed by \<open>-RCV\<close>.
\<close>

theorem transfer_scenario:
  assumes ab: "A \<noteq> B" "A \<noteq> []" "B \<noteq> []"
    and ua: "User_findById A st = Some a" "balance a = 500"
    and ub: "User_findById B st = Some b" "balance b = 500"
    and pin: "map_of (pins st) A = Some h" "comparePin pin h" "pin \<noteq> []" "p \<noteq> []"
    and fresh: "''TRX-'' @ take 8 uuid \<notin> reference ` set (transactions st)"
               "''TRX-'' @ take 8 uuid @ ''-RCV'' \<notin> reference ` set (transactions st)"
  shows "\<exists>st' sTx rTx.
           transfer comparePin uuid A
             \<lparr>t_recipientId = Some B, t_amount = Some 200, t_purpose = Some p, t_pin = Some pin\<rparr> st
             = (Reply 200 (''TRX-'' @ take 8 uuid), st')
         \<and> balance_of A st' = Some 275
         \<and> balance_of B st' = Some 700
         \<and> (\<forall>u. u \<noteq> A \<and> u \<noteq> B \<longrightarrow> balance_of u st' = balance_of u st)
         \<and> transactions st' = transactions st @ [sTx, rTx]
         \<and> userId sTx = A \<and> transactionType sTx = Send \<and> amount sTx = 200 \<and> fee sTx = 25
         \<and> userId rTx = B \<and> transactionType rTx = Receive \<and> amount rTx = 200 \<and> fee rTx = 0
         \<and> status sTx = Successful \<and> status rTx = Successful
         \<and> reference sTx = ''TRX-'' @ take 8 uuid
         \<and> reference rTx = reference sTx @ ''-RCV''"
  using assms
  by (simp add: transfer_def transfer_checks_def notEmpty_def Let_def transfer_fee_def
        Transaction_create_def TransactionSchema_valid_def status_enum_def
        transactionType_enum_def User_findById_save_balance balance_of_def js_eval)

theorem transfer_scenario_witness:
  "\<exists>st' sTx rTx.
     transfer example_comparePin ''9f8e7d6c-0000'' ''A''
       \<lparr>t_recipientId = Some ''B'', t_amount = Some 200, t_purpose = Some ''rent'', t_pin = Some ''1234''\<rparr>
       (example_store 500 500)
       = (Reply 200 ''TRX-9f8e7d6c'', st')
     \<and> balance_of ''A'' st' = Some 275 \<and> balance_of ''B'' st' = Some 700
     \<and> transactions st' = [sTx, rTx]
     \<and> status sTx = Successful \<and> status rTx = Successful
     \<and> reference sTx = ''TRX-9f8e7d6c'' \<and> reference rTx = ''TRX-9f8e7d6c-RCV''"
proof -
  from transfer_scenario [where A = "''A''" and B = "''B''" and st = "example_store 500 500"
      and a = "example_user ''Ada'' 500" and b = "example_user ''Bob'' 500"
      and h = "''$2a$10$hash''" and comparePin = example_comparePin and pin = "''1234''"
      and p = "''rent''" and uuid = "''9f8e7d6c-0000''"]
  obtain st' sTx rTx where
    "transfer example_comparePin ''9f8e7d6c-0000'' ''A''
       \<lparr>t_recipientId = Some ''B'', t_amount = Some 200, t_purpose = Some ''rent'', t_pin = Some ''1234''\<rparr>
       (example_store 500 500) = (Reply 200 ''TRX-9f8e7d6c'', st')"
    "balance_of ''A'' st' = Some 275" "balance_of ''B'' st' = Some 700"
    "transactions st' = [sTx, rTx]" "status sTx = Successful" "status rTx = Successful"
    "reference sTx = ''TRX-9f8e7d6c''" "reference rTx = ''TRX-9f8e7d6c-RCV''"
    by (auto simp: example_store_def example_user_def example_comparePin_def User_findById_def)
  then show ?thesis by blast
qed

section \<open>Insufficient balance\<close>






section \<open>The PIN guard\<close>

lemma transfer_pin_not_set:
  assumes "map_of (pins st) uid = None"
  shows "snd (transfer comparePin uuid uid b st) = st"
    and "transfer_checks b \<Longrightarrow> transfer comparePin uuid uid b st = (Reply 400 ''Transaction PIN not set'', st)"
  using assms by (simp_all add: transfer_def Let_def)

lemma transfer_pin_invalid:
  assumes "map_of (pins st) uid = Some h" "\<not> comparePin (the (t_pin b)) h"
  shows "snd (transfer comparePin uuid uid b st) = st"
    and "transfer_checks b \<Longrightarrow> transfer comparePin uuid uid b st = (Reply 400 ''Invalid transaction PIN'', st)"
  using assms by (simp_all add: transfer_def Let_def)

lemma debit_to_bank_pin_not_set:
  assumes "map_of (pins st) uid = None"
  shows "snd (debit_to_bank prefix ty label comparePin uuid uid b st) = st"
    and "bank_checks b \<Longrightarrow> debit_to_bank prefix ty label comparePin uuid uid b st
           = (Reply 400 ''Transaction PIN not set'', st)"
  using assms by (simp_all add: debit_to_bank_def Let_def)

lemma debit_to_bank_pin_invalid:
  assumes "map_of (pins st) uid = Some h" "\<not> comparePin (the (b_pin b)) h"
  shows "snd (debit_to_bank prefix ty label comparePin uuid uid b st) = st"
    and "bank_checks b \<Longrightarrow> debit_to_bank prefix ty label comparePin uuid uid b st
           = (Reply 400 ''Invalid transaction PIN'', st)"
  using assms by (simp_all add: debit_to_bank_def Let_def)

lemma Transaction_create_pins:
  "Transaction_create t st = Inr st' \<Longrightarrow> pins st' = pins st"
  by (auto simp: Transaction_create_def split: if_splits)

lemma transfer_pins: "pins (snd (transfer comparePin uuid uid b st)) = pins st"
  by (auto simp: transfer_def Let_def Transaction_create_def split: option.splits sum.splits if_splits)

lemma debit_to_bank_pins:
  "pins (snd (debit_to_bank prefix ty label comparePin uuid uid b st)) = pins st"
  by (auto simp: debit_to_bank_def Let_def Transaction_create_def save_beneficiary_and_commit_def
        Beneficiary_create_def split: option.splits sum.splits if_splits)

lemma set_transaction_pin_rejects:
  "\<not> (4 \<le> length pin \<and> length pin \<le> 6) \<Longrightarrow>
     set_transaction_pin bcrypt_hash salt uid (Some pin) st = (Reply 400 ''errors'', st)"
  by (auto simp: set_transaction_pin_def)

lemma set_transaction_pin_stores_hash:
  assumes len: "4 \<le> length pin" "length pin \<le> 6"
    and long: "\<forall>p s. 6 < length (bcrypt_hash p s)"
    and inv: "\<forall>u h. map_of (pins st) u = Some h \<longrightarrow> (\<exists>p s. h = bcrypt_hash p s)"
  shows "fst (set_transaction_pin bcrypt_hash salt uid (Some pin) st) = Reply 200 ''Transaction PIN set successfully''"
    and "pins (snd (set_transaction_pin bcrypt_hash salt uid (Some pin) st))
           = AList.update uid (bcrypt_hash pin salt) (pins st)"
proof -
  have "pin \<noteq> old" if "map_of (pins st) uid = Some old" for old
  proof -
    from inv that obtain p s where "old = bcrypt_hash p s" by blast
    with long have "6 < length old" by simp
    with len show ?thesis by auto
  qed
  then have m: "(case map_of (pins st) uid of None \<Rightarrow> True | Some old \<Rightarrow> the (Some pin) \<noteq> old)"
    by (simp split: option.splits)
  from len show "fst (set_transaction_pin bcrypt_hash salt uid (Some pin) st) = Reply 200 ''Transaction PIN set successfully''"
    by (simp add: set_transaction_pin_def Let_def)
  from len m show "pins (snd (set_transaction_pin bcrypt_hash salt uid (Some pin) st))
           = AList.update uid (bcrypt_hash pin salt) (pins st)"
    by (simp add: set_transaction_pin_def Let_def TransactionPin_pre_save_def)
qed


text \<open>
  The guard of the ledger routes. For \<open>/transfer\<close>, \<open>/bank-transfer\<close> and \<open>/withdraw\<close>
  of the ledger routes: with no stored PIN the store is returned unchanged and a request
  that passes the validators is answered "Transaction PIN not set"; with a stored hash
  that \<open>bcrypt.compare\<close> rejects, the store is unchanged and the answer is "Invalid
  transaction PIN". None of the three writes the PIN collection. The PIN route stores
  \<open>bcrypt.hash(pin, salt)\<close>: given that a bcrypt digest is longer than the six characters
  a PIN may have and that the stored values are bcrypt digests, after setting a PIN every
  stored value is again a bcrypt digest and none equals the plaintext.
\<close>

theorem pin_guard:
  "(map_of (pins st) uid = None \<longrightarrow>
        snd (transfer comparePin uuid uid tb st) = st
      \<and> snd (bank_transfer comparePin uuid uid bb st) = st
      \<and> snd (withdraw comparePin uuid uid bb st) = st
      \<and> (transfer_checks tb \<longrightarrow>
            fst (transfer comparePin uuid uid tb st) = Reply 400 ''Transaction PIN not set'')
      \<and> (bank_checks bb \<longrightarrow>
            fst (bank_transfer comparePin uuid uid bb st) = Reply 400 ''Transaction PIN not set''
          \<and> fst (withdraw comparePin uuid uid bb st) = Reply 400 ''Transaction PIN not set''))
   \<and> (\<forall>h. map_of (pins st) uid = Some h \<and> \<not> comparePin (the (t_pin tb)) h \<longrightarrow>
        snd (transfer comparePin uuid uid tb st) = st
      \<and> (transfer_checks tb \<longrightarrow>
            fst (transfer comparePin uuid uid tb st) = Reply 400 ''Invalid transaction PIN''))
   \<and> (\<forall>h. map_of (pins st) uid = Some h \<and> \<not> comparePin (the (b_pin bb)) h \<longrightarrow>
        snd (bank_transfer comparePin uuid uid bb st) = st
      \<and> snd (withdraw comparePin uuid uid bb st) = st
      \<and> (bank_checks bb \<longrightarrow>
            fst (bank_transfer comparePin uuid uid bb st) = Reply 400 ''Invalid transaction PIN''
          \<and> fst (withdraw comparePin uuid uid bb st) = Reply 400 ''Invalid transaction PIN''))
   \<and> pins (snd (transfer comparePin uuid uid tb st)) = pins st
   \<and> pins (snd (bank_transfer comparePin uuid uid bb st)) = pins st
   \<and> pins (snd (withdraw comparePin uuid uid bb st)) = pins st
   \<and> ((\<forall>p s. 6 < length (bcrypt_hash p s))
        \<and> (\<forall>u h. map_of (pins st) u = Some h \<longrightarrow> (\<exists>p s. h = bcrypt_hash p s))
        \<and> 4 \<le> length pin \<and> length pin \<le> 6 \<longrightarrow>
          map_of (pins (snd (set_transaction_pin bcrypt_hash salt uid (Some pin) st))) uid
            = Some (bcrypt_hash pin salt)
        \<and> (\<forall>u h. map_of (pins (snd (set_transaction_pin bcrypt_hash salt uid (Some pin) st))) u = Some h
              \<longrightarrow> h \<noteq> pin \<and> (\<exists>p s. h = bcrypt_hash p s)))"
proof (intro conjI allI impI)
  assume n: "map_of (pins st) uid = None"
  show "snd (transfer comparePin uuid uid tb st) = st" by (rule transfer_pin_not_set(1) [OF n])
  show "snd (bank_transfer comparePin uuid uid bb st) = st"
    unfolding bank_transfer_def by (rule debit_to_bank_pin_not_set(1) [OF n])
  show "snd (withdraw comparePin uuid uid bb st) = st"
    unfolding withdraw_def by (rule debit_to_bank_pin_not_set(1) [OF n])
  {
    assume c: "transfer_checks tb"
    show "fst (transfer comparePin uuid uid tb st) = Reply 400 ''Transaction PIN not set''"
      by (simp add: transfer_pin_not_set(2) [OF n c])
  }
  {
    assume c: "bank_checks bb"
    show "fst (bank_transfer comparePin uuid uid bb st) = Reply 400 ''Transaction PIN not set''"
      unfolding bank_transfer_def by (simp add: debit_to_bank_pin_not_set(2) [OF n c])
    show "fst (withdraw comparePin uuid uid bb st) = Reply 400 ''Transaction PIN not set''"
      unfolding withdraw_def by (simp add: debit_to_bank_pin_not_set(2) [OF n c])
  }
next
  fix h assume a: "map_of (pins st) uid = Some h \<and> \<not> comparePin (the (t_pin tb)) h"
  then have s: "map_of (pins st) uid = Some h" and m: "\<not> comparePin (the (t_pin tb)) h" by simp_all
  show "snd (transfer comparePin uuid uid tb st) = st" by (rule transfer_pin_invalid(1) [where comparePin = comparePin and b = tb, OF s m])
  assume c: "transfer_checks tb"
  show "fst (transfer comparePin uuid uid tb st) = Reply 400 ''Invalid transaction PIN''"
    by (simp add: transfer_pin_invalid(2) [where comparePin = comparePin and b = tb, OF s m c])
next
  fix h assume a: "map_of (pins st) uid = Some h \<and> \<not> comparePin (the (b_pin bb)) h"
  then have s: "map_of (pins st) uid = Some h" and m: "\<not> comparePin (the (b_pin bb)) h" by simp_all
  show "snd (bank_transfer comparePin uuid uid bb st) = st"
    unfolding bank_transfer_def by (rule debit_to_bank_pin_invalid(1) [where comparePin = comparePin and b = bb, OF s m])
  show "snd (withdraw comparePin uuid uid bb st) = st"
    unfolding withdraw_def by (rule debit_to_bank_pin_invalid(1) [where comparePin = comparePin and b = bb, OF s m])
  assume c: "bank_checks bb"
  show "fst (bank_transfer comparePin uuid uid bb st) = Reply 400 ''Invalid transaction PIN''"
    unfolding bank_transfer_def by (simp add: debit_to_bank_pin_invalid(2) [where comparePin = comparePin and b = bb, OF s m c])
  show "fst (withdraw comparePin uuid uid bb st) = Reply 400 ''Invalid transaction PIN''"
    unfolding withdraw_def by (simp add: debit_to_bank_pin_invalid(2) [where comparePin = comparePin and b = bb, OF s m c])
next
  show "pins (snd (transfer comparePin uuid uid tb st)) = pins st" by (rule transfer_pins)
  show "pins (snd (bank_transfer comparePin uuid uid bb st)) = pins st"
    unfolding bank_transfer_def by (rule debit_to_bank_pins)
  show "pins (snd (withdraw comparePin uuid uid bb st)) = pins st"
    unfolding withdraw_def by (rule debit_to_bank_pins)
next
  assume a: "(\<forall>p s. 6 < length (bcrypt_hash p s))
        \<and> (\<forall>u h. map_of (pins st) u = Some h \<longrightarrow> (\<exists>p s. h = bcrypt_hash p s))
        \<and> 4 \<le> length pin \<and> length pin \<le> 6"
  then have long: "\<forall>p s. 6 < length (bcrypt_hash p s)"
    and inv: "\<forall>u h. map_of (pins st) u = Some h \<longrightarrow> (\<exists>p s. h = bcrypt_hash p s)"
    and len: "4 \<le> length pin" "length pin \<le> 6" by simp_all
  note e = set_transaction_pin_stores_hash(2) [OF len long inv, of salt uid]
  show "map_of (pins (snd (set_transaction_pin bcrypt_hash salt uid (Some pin) st))) uid
            = Some (bcrypt_hash pin salt)"
    by (simp add: e update_conv')
  fix u h
  assume "map_of (pins (snd (set_transaction_pin bcrypt_hash salt uid (Some pin) st))) u = Some h"
  then have "(u = uid \<and> h = bcrypt_hash pin salt) \<or> map_of (pins st) u = Some h"
    by (auto simp: e update_conv' split: if_splits)
  with inv have ex: "\<exists>p s. h = bcrypt_hash p s" by blast
  then obtain p s where "h = bcrypt_hash p s" by blast
  with long have "6 < length h" by simp
  with len show "h \<noteq> pin" by auto
  from ex show "\<exists>p s. h = bcrypt_hash p s" .
qed

theorem pin_guard_witness:
  "transfer example_comparePin ''9f8e7d6c-0000'' ''B''
      \<lparr>t_recipientId = Some ''A'', t_amount = Some 200, t_purpose = Some ''rent'', t_pin = Some ''1234''\<rparr>
      (example_store 500 500)
    = (Reply 400 ''Transaction PIN not set'', example_store 500 500)
   \<and> withdraw example_comparePin ''9f8e7d6c-0000'' ''A''
      \<lparr>b_bankDetails = Some example_bankDetails, b_amount = Some 100, b_pin = Some ''0000''\<rparr>
      (example_store 500 500)
    = (Reply 400 ''Invalid transaction PIN'', example_store 500 500)
   \<and> pins (snd (set_transaction_pin example_bcrypt_hash ''salt'' ''B'' (Some ''4321'') (example_store 500 500)))
    = [(''A'', ''$2a$10$hash''), (''B'', ''$2a$10$salt4321'')]"
proof -
  have long: "\<forall>p s. 6 < length (example_bcrypt_hash p s)"
    by (simp add: example_bcrypt_hash_def)
  have "''$2a$10$hash'' = example_bcrypt_hash [] ''hash''"
    by (simp add: example_bcrypt_hash_def)
  then have inv: "\<forall>u h. map_of (pins (example_store 500 500)) u = Some h
                   \<longrightarrow> (\<exists>p s. h = example_bcrypt_hash p s)"
    by (auto simp: example_store_def split: if_splits)
  from pin_guard [where st = "example_store 500 500" and uid = "''B''"
      and comparePin = example_comparePin and uuid = "''9f8e7d6c-0000''"
      and tb = "\<lparr>t_recipientId = Some ''A'', t_amount = Some 200, t_purpose = Some ''rent'', t_pin = Some ''1234''\<rparr>"
      and bcrypt_hash = example_bcrypt_hash and pin = "''4321''" and salt = "''salt''"]
    long inv
  have 1: "transfer example_comparePin ''9f8e7d6c-0000'' ''B''
      \<lparr>t_recipientId = Some ''A'', t_amount = Some 200, t_purpose = Some ''rent'', t_pin = Some ''1234''\<rparr>
      (example_store 500 500)
    = (Reply 400 ''Transaction PIN not set'', example_store 500 500)"
    by (simp add: example_store_def transfer_checks_def notEmpty_def prod_eq_iff)
  from pin_guard [where st = "example_store 500 500" and uid = "''A''"
      and comparePin = example_comparePin and uuid = "''9f8e7d6c-0000''"
      and bb = "\<lparr>b_bankDetails = Some example_bankDetails, b_amount = Some 100, b_pin = Some ''0000''\<rparr>"]
  have 2: "withdraw example_comparePin ''9f8e7d6c-0000'' ''A''
      \<lparr>b_bankDetails = Some example_bankDetails, b_amount = Some 100, b_pin = Some ''0000''\<rparr>
      (example_store 500 500)
    = (Reply 400 ''Invalid transaction PIN'', example_store 500 500)"
    by (simp add: example_store_def bank_checks_def notEmpty_def prod_eq_iff example_comparePin_def)
  have 3: "pins (snd (set_transaction_pin example_bcrypt_hash ''salt'' ''B'' (Some ''4321'') (example_store 500 500)))
    = [(''A'', ''$2a$10$hash''), (''B'', ''$2a$10$salt4321'')]"
    by (simp add: set_transaction_pin_def example_store_def TransactionPin_pre_save_def
          example_bcrypt_hash_def Let_def)
  from 1 2 3 show ?thesis by simp
qed

text \<open>
  Claim C7, at the input where it fails. B has no stored PIN. The ledger route
  \<open>/transfer\<close> answers B's transfer with "Transaction PIN not set" and leaves the store as
  it was. The transfer route of the payment routes reads no PIN: the same transfer of 100
  from B to A is committed (B holds 400, A holds 600, two successful records), and the
  withdrawal route of the payment routes debits B by 100.
\<close>

theorem payment_routes_move_money_without_pin:
  "map_of (pins (example_store 500 500)) ''B'' = None
   \<and> transfer example_comparePin ''9f8e7d6c-0000'' ''B''
        \<lparr>t_recipientId = Some ''A'', t_amount = Some 100, t_purpose = Some ''rent'', t_pin = Some ''1234''\<rparr>
        (example_store 500 500)
      = (Reply 400 ''Transaction PIN not set'', example_store 500 500)
   \<and> fst (payments_transfer None (Some example_transfer_response) ''B'' (Some ''A'') (Some 100) None
            (example_store 500 500)) = Reply 200 ''TRF_1''
   \<and> balance_of ''B''
        (snd (payments_transfer None (Some example_transfer_response) ''B'' (Some ''A'') (Some 100) None
               (example_store 500 500))) = Some 400
   \<and> balance_of ''A''
        (snd (payments_transfer None (Some example_transfer_response) ''B'' (Some ''A'') (Some 100) None
               (example_store 500 500))) = Some 600
   \<and> map status (transactions
        (snd (payments_transfer None (Some example_transfer_response) ''B'' (Some ''A'') (Some 100) None
               (example_store 500 500)))) = [Successful, Successful]
   \<and> balance_of ''B''
        (snd (payments_withdraw (Some example_transfer_response) (Some example_transfer_response) ''B''
               (Some 100) (Some ''044'') (Some ''0123456789'') (Some ''Bob Doe'') None
               (example_store 500 500))) = Some 400"
  by (simp add: transfer_def transfer_checks_def payments_transfer_def payments_withdraw_def
        example_store_def example_user_def example_transfer_response_def balance_of_def
        missing_def notEmpty_def falsy_def User_findById_def Let_def User_save_balance_def
        Transaction_create_def TransactionSchema_valid_def status_enum_def
        transactionType_enum_def orElse_def fullName_def js_eval)

section \<open>Facts about the transaction collection\<close>

lemma find_index_of_Some:
  "find_index_of P xs = Some i \<Longrightarrow> i < length xs \<and> P (xs ! i)"
  by (induction xs arbitrary: i) (auto split: if_splits)

lemma find_index_of_None:
  "find_index_of P xs = None \<longleftrightarrow> (\<forall>x \<in> set xs. \<not> P x)"
  by (induction xs) auto

lemma find_index_of_cong:
  "(\<And>x. x \<in> set xs \<Longrightarrow> P x = Q x) \<Longrightarrow> find_index_of P xs = find_index_of Q xs"
  by (induction xs) auto

lemma findOneAndUpdate_status_frame:
  "users (Transaction_findOneAndUpdate_status P s st) = users st
   \<and> pins (Transaction_findOneAndUpdate_status P s st) = pins st
   \<and> beneficiaries (Transaction_findOneAndUpdate_status P s st) = beneficiaries st
   \<and> length (transactions (Transaction_findOneAndUpdate_status P s st)) = length (transactions st)"
  by (simp add: Transaction_findOneAndUpdate_status_def split: option.splits)

lemma findOneAndUpdate_status_nth:
  assumes "j < length (transactions st)"
  shows "transactions (Transaction_findOneAndUpdate_status P s st) ! j = transactions st ! j
       \<or> (find_index_of P (transactions st) = Some j \<and> P (transactions st ! j)
          \<and> transactions (Transaction_findOneAndUpdate_status P s st) ! j = (transactions st ! j)\<lparr>status := s\<rparr>)"
proof (cases "find_index_of P (transactions st)")
  case None
  then show ?thesis by (simp add: Transaction_findOneAndUpdate_status_def)
next
  case (Some i)
  with find_index_of_Some [OF Some] assms show ?thesis
    by (cases "i = j") (simp_all add: Transaction_findOneAndUpdate_status_def)
qed

lemma findOneAndUpdate_status_no_match:
  "\<forall>t \<in> set (transactions st). \<not> P t \<Longrightarrow> Transaction_findOneAndUpdate_status P s st = st"
  by (simp add: Transaction_findOneAndUpdate_status_def find_index_of_None [THEN iffD2])

lemma balance_of_save_balance:
  "balance_of v (User_save_balance uid b st) =
     (if v = uid then map_option (\<lambda>_. b) (balance_of uid st) else balance_of v st)"
  by (cases "User_findById uid st") (simp_all add: balance_of_def User_findById_save_balance)

lemma balance_of_upd [simp]:
  "balance_of u (st\<lparr>transactions := x\<rparr>) = balance_of u st"
  by (simp add: balance_of_def)

lemma save_recipientCode_transactions [simp]:
  "transactions (User_save_recipientCode uid c st) = transactions st"
  by (simp add: User_save_recipientCode_def)

section \<open>Facts about the webhook and its handlers\<close>

lemma webhook_signed:
  "webhook hmac stringify secret (signed_request hmac stringify secret e) st
     = (Reply 200 ''Webhook received'', dispatch e st)"
  by (simp add: webhook_def signed_request_def signed_payload_def)

lemma webhook_verified:
  "signature req = Some (hmac secret (signed_payload stringify req)) \<Longrightarrow>
     snd (webhook hmac stringify secret req st) = dispatch (body req) st"
  by (simp add: webhook_def)

lemma webhook_fail_closed:
  "Some (hmac secret (stringify (body req))) \<noteq> signature req \<Longrightarrow>
     webhook hmac stringify secret req st = (Reply 400 ''Invalid signature'', st)"
  by (simp add: webhook_def signed_payload_def)

lemma dispatch_failed:
  "ev_event e = ''transfer.failed'' \<Longrightarrow> ev_data e = Some d \<Longrightarrow> dispatch e st = handleFailedTransfer d st"
  by (simp add: dispatch_def)

lemma dispatch_reversed:
  "ev_event e = ''transfer.reversed'' \<Longrightarrow> ev_data e = Some d \<Longrightarrow> dispatch e st = handleReversedTransfer d st"
  by (simp add: dispatch_def)

lemma webhook_transfer_success_cases:
  assumes "ev_event (body req) = ''transfer.success''"
  shows "snd (webhook hmac stringify secret req st) = st
       \<or> (\<exists>d md. ev_data (body req) = Some d \<and> d_metadata d = Some md \<and> notEmpty (m_userId md)
            \<and> snd (webhook hmac stringify secret req st)
                = Transaction_findOneAndUpdate_status
                    (\<lambda>t. Some (reference t) = m_originalReference md) Successful st)"
  using assms
  by (auto simp: webhook_def dispatch_def handleSuccessfulTransfer_def split: option.splits)

lemma handleReversedTransfer_rejected: "handleReversedTransfer d st = st"
  by (simp add: handleReversedTransfer_def Transaction_save_def TransactionSchema_valid_def
        status_enum_def Let_def split: option.splits)

lemma handleFailedTransfer_reference:
  "d_reference d1 = d_reference d2 \<Longrightarrow> handleFailedTransfer d1 st = handleFailedTransfer d2 st"
  by (simp add: handleFailedTransfer_def)

lemma handleFailedTransfer_not_found:
  "Transaction_findOne (\<lambda>t. reference t = d_reference d) st = None \<Longrightarrow> handleFailedTransfer d st = st"
  by (simp add: handleFailedTransfer_def)

lemma handleFailedTransfer_refund:
  assumes "Transaction_findOne (\<lambda>t. reference t = d_reference d) st = Some i"
    and "TransactionSchema_valid ((transactions st ! i)\<lparr>status := Failed\<rparr>)"
  shows "balance_of u (handleFailedTransfer d st)
           = (if u = userId (transactions st ! i)
              then map_option (\<lambda>b. js_add b (amount (transactions st ! i))) (balance_of u st)
              else balance_of u st)"
proof (cases "User_findById (userId (transactions st ! i)) st")
  case None
  with assms show ?thesis
    by (simp add: handleFailedTransfer_def Let_def Transaction_save_def balance_of_def)
next
  case (Some sender)
  then have "balance_of (userId (transactions st ! i)) st = Some (balance sender)"
    by (simp add: balance_of_def)
  with assms Some show ?thesis
    by (simp add: handleFailedTransfer_def Let_def Transaction_save_def balance_of_save_balance)
qed

lemma handleFailedTransfer_balance:
  assumes "Transaction_findOne (\<lambda>t. reference t = d_reference d) st = Some i"
  shows "handleFailedTransfer d st = st
       \<or> (\<forall>u. balance_of u (handleFailedTransfer d st)
              = (if u = userId (transactions st ! i)
                 then map_option (\<lambda>b. js_add b (amount (transactions st ! i))) (balance_of u st)
                 else balance_of u st))"
proof (cases "TransactionSchema_valid ((transactions st ! i)\<lparr>status := Failed\<rparr>)")
  case True
  from handleFailedTransfer_refund [OF assms True] show ?thesis by blast
next
  case False
  with assms show ?thesis
    by (simp add: handleFailedTransfer_def Let_def Transaction_save_def)
qed

lemma handleFailedTransfer_length:
  "length (transactions (handleFailedTransfer d st)) = length (transactions st)"
  by (auto simp: handleFailedTransfer_def Let_def Transaction_save_def split: option.splits)

lemma example_ledger_reachable:
  "payments_transfer None (Some example_transfer_response) ''A'' (Some ''B'') (Some 100) None
     (example_store 500 500) = (Reply 200 ''TRF_1'', example_ledger)"
  by (simp add: payments_transfer_def example_store_def example_user_def example_ledger_def
        example_transfer_response_def example_send_tx_def example_receive_tx_def
        missing_def notEmpty_def falsy_def User_findById_def Let_def User_save_balance_def
        AList.map_entry.simps Transaction_create_def TransactionSchema_valid_def
        status_enum_def transactionType_enum_def orElse_def fullName_def js_eval)

lemma failed_on_example_ledger:
  "handleFailedTransfer \<lparr>d_reference = ''TRF_1'', d_amount = k, d_reason = r, d_metadata = m\<rparr>
     ((example_store a b)\<lparr>transactions := [example_send_tx\<lparr>status := s\<rparr>, example_receive_tx]\<rparr>)
   = (example_store (js_add a 100) b)\<lparr>transactions := [example_send_tx\<lparr>status := Failed\<rparr>, example_receive_tx]\<rparr>"
  by (simp add: handleFailedTransfer_def Transaction_findOne_def example_send_tx_def
        example_receive_tx_def Let_def Transaction_save_def TransactionSchema_valid_def
        status_enum_def transactionType_enum_def example_store_def User_findById_def
        User_save_balance_def example_user_def)

lemma success_on_example_ledger:
  "handleSuccessfulTransfer
     \<lparr>d_reference = r, d_amount = k, d_reason = None,
      d_metadata = Some \<lparr>m_userId = Some ''A'', m_originalReference = Some ''TRF_1''\<rparr>\<rparr>
     ((example_store a b)\<lparr>transactions := [example_send_tx\<lparr>status := s\<rparr>, example_receive_tx]\<rparr>)
   = (example_store a b)\<lparr>transactions := [example_send_tx\<lparr>status := Successful\<rparr>, example_receive_tx]\<rparr>"
  by (simp add: handleSuccessfulTransfer_def notEmpty_def Transaction_findOneAndUpdate_status_def
        example_send_tx_def example_receive_tx_def)

section \<open>Redelivery and the guards of the sibling routes\<close>

text \<open>A second delivery of a \<open>transfer.success\<close> event, and of a \<open>charge.success\<close> event
  with a reference, changes nothing: the first finds the status it writes, the second finds
  the record the first delivery created.\<close>

lemma find_index_of_update_status:
  assumes "\<And>t s. P (t\<lparr>status := s\<rparr>) = P t" "i < length xs"
  shows "find_index_of P (xs[i := (xs ! i)\<lparr>status := s\<rparr>]) = find_index_of P xs"
  using assms(2)
proof (induction xs arbitrary: i)
  case Nil
  then show ?case by simp
next
  case (Cons x xs)
  then show ?case by (cases i) (simp_all add: assms(1))
qed

lemma handleSuccessfulTransfer_idempotent:
  "handleSuccessfulTransfer d (handleSuccessfulTransfer d st) = handleSuccessfulTransfer d st"
proof (cases "d_metadata d")
  case None
  then show ?thesis by (simp add: handleSuccessfulTransfer_def)
next
  case (Some md)
  let ?P = "\<lambda>t. Some (reference t) = m_originalReference md"
  show ?thesis
  proof (cases "find_index_of ?P (transactions st)")
    case None
    with Some show ?thesis
      by (simp add: handleSuccessfulTransfer_def Transaction_findOneAndUpdate_status_def)
  next
    case (Some i)
    from find_index_of_Some [OF Some] have i: "i < length (transactions st)" by simp
    have "find_index_of ?P ((transactions st)[i := (transactions st ! i)\<lparr>status := Successful\<rparr>]) = Some i"
      using find_index_of_update_status [of ?P i "transactions st" Successful] i Some by simp
    with Some \<open>d_metadata d = Some md\<close> i show ?thesis
      by (simp add: handleSuccessfulTransfer_def Transaction_findOneAndUpdate_status_def)
  qed
qed

lemma find_index_of_append_new:
  "find_index_of P xs = None \<Longrightarrow> P t \<Longrightarrow> find_index_of P (xs @ [t]) = Some (length xs)"
  by (induction xs) (auto split: if_splits)

lemma handleSuccessfulPayment_idempotent:
  assumes "d_reference d \<noteq> []"
  shows "handleSuccessfulPayment d (handleSuccessfulPayment d st) = handleSuccessfulPayment d st"
proof (cases "d_metadata d")
  case None
  then show ?thesis by (simp add: handleSuccessfulPayment_def)
next
  case (Some md)
  show ?thesis
  proof (cases "notEmpty (m_userId md)")
    case False
    with Some show ?thesis by (simp add: handleSuccessfulPayment_def)
  next
    case True
    then obtain uid where uid: "m_userId md = Some uid" "uid \<noteq> []"
      by (auto simp: notEmpty_def split: option.splits)
    show ?thesis
    proof (cases "User_findById uid st")
      case None
      with Some True uid show ?thesis by (simp add: handleSuccessfulPayment_def Let_def)
    next
      case u: (Some u)
      show ?thesis
      proof (cases "Transaction_findOne (\<lambda>t. reference t = d_reference d) st")
        case (Some i)
        with \<open>d_metadata d = Some md\<close> True uid u show ?thesis
          by (simp add: handleSuccessfulPayment_def Let_def)
      next
        case None
        let ?tx = "deposit_tx uid (js_div (d_amount d) 100) ''Deposit via Paystack'' (d_reference d)"
        let ?st1 = "User_save_balance uid (js_add (balance u) (js_div (d_amount d) 100)) st"
        let ?st2 = "?st1\<lparr>transactions := transactions st @ [?tx]\<rparr>"
        from None have nf: "find_index_of (\<lambda>t. reference t = d_reference d) (transactions st) = None"
          by (simp add: Transaction_findOne_def)
        then have fresh: "d_reference d \<notin> reference ` set (transactions st)"
          by (auto simp: find_index_of_None)
        have valid: "TransactionSchema_valid ?tx"
          using assms uid
          by (simp add: TransactionSchema_valid_def deposit_tx_def status_enum_def transactionType_enum_def)
        have ref: "reference ?tx = d_reference d" by (simp add: deposit_tx_def)
        have first: "handleSuccessfulPayment d st = ?st2"
          using \<open>d_metadata d = Some md\<close> True uid u None valid fresh ref
          by (simp add: handleSuccessfulPayment_def Let_def Transaction_create_def)
        have found: "Transaction_findOne (\<lambda>t. reference t = d_reference d) ?st2 = Some (length (transactions st))"
          using find_index_of_append_new [OF nf, of ?tx] ref
          by (simp add: Transaction_findOne_def)
        have user: "User_findById uid ?st2 \<noteq> None"
          using u by (simp add: User_findById_save_balance)
        from user obtain u' where "User_findById uid ?st2 = Some u'" by blast
        with found \<open>d_metadata d = Some md\<close> True uid
        have "handleSuccessfulPayment d ?st2 = ?st2"
          by (simp add: handleSuccessfulPayment_def Let_def)
        with first show ?thesis by simp
      qed
    qed
  qed
qed

text \<open>The payment routes and the bank-transfer deposit routes reject an amount that is not
  positive, and confirmation and cancellation act on pending records only.\<close>

lemma payments_transfer_rejects_nonpositive:
  "amt \<le> 0 \<Longrightarrow> payments_transfer rr tr uid rid (Some amt) reason st
     = (Reply 400 ''Recipient ID and valid amount are required'', st)"
  by (simp add: payments_transfer_def)

lemma bank_transfer_initiate_rejects_nonpositive:
  "amt \<le> 0 \<Longrightarrow> bank_transfer_initiate uid (Some amt) r st = (Reply 400 ''Valid amount is required'', st)"
  by (simp add: bank_transfer_initiate_def)

lemma payments_charge_card_rejects_nonpositive:
  "amt \<le> 0 \<Longrightarrow> payments_charge_card cf cr uid (Some amt) e c st = (Reply 400 ''Valid amount is required'', st)"
  by (simp add: payments_charge_card_def)

lemma bank_transfer_confirm_only_pending:
  "\<forall>t \<in> set (transactions st). status t \<noteq> Pending \<Longrightarrow> snd (bank_transfer_confirm r st) = st"
  by (simp add: bank_transfer_confirm_def Transaction_findOne_def find_index_of_None [THEN iffD2])

lemma bank_transfer_cancel_only_pending:
  "\<forall>t \<in> set (transactions st). status t \<noteq> Pending \<Longrightarrow> snd (bank_transfer_cancel uid r st) = st"
  by (simp add: bank_transfer_cancel_def Transaction_findOne_def find_index_of_None [THEN iffD2])

section \<open>The frame of a transfer.success event\<close>

text \<open>
  Claim C10. A request to the webhook whose event is \<open>transfer.success\<close> leaves the users
  (so every balance), the PINs and the beneficiaries as they were and keeps the number of
  records; a record either stays as it was or is the record whose reference is
  \<open>metadata.originalReference\<close> with its status set to successful and nothing else
  changed; at most one record changes; and when \<open>metadata.userId\<close> is absent or no
  record has that reference, the store is unchanged.
\<close>

theorem transfer_success_frame:
  assumes ev: "ev_event (body req) = ''transfer.success''"
  shows "users (snd (webhook hmac stringify secret req st)) = users st
       \<and> pins (snd (webhook hmac stringify secret req st)) = pins st
       \<and> beneficiaries (snd (webhook hmac stringify secret req st)) = beneficiaries st
       \<and> length (transactions (snd (webhook hmac stringify secret req st))) = length (transactions st)
       \<and> (\<forall>j < length (transactions st).
             transactions (snd (webhook hmac stringify secret req st)) ! j = transactions st ! j
           \<or> (\<exists>d md. ev_data (body req) = Some d \<and> d_metadata d = Some md
                \<and> m_originalReference md = Some (reference (transactions st ! j))
                \<and> transactions (snd (webhook hmac stringify secret req st)) ! j
                    = (transactions st ! j)\<lparr>status := Successful\<rparr>))
       \<and> (\<forall>j k. j < length (transactions st) \<and> k < length (transactions st)
             \<and> transactions (snd (webhook hmac stringify secret req st)) ! j \<noteq> transactions st ! j
             \<and> transactions (snd (webhook hmac stringify secret req st)) ! k \<noteq> transactions st ! k
             \<longrightarrow> j = k)
       \<and> ((\<forall>d md. ev_data (body req) = Some d \<and> d_metadata d = Some md
              \<longrightarrow> \<not> notEmpty (m_userId md)
                  \<or> (\<forall>t \<in> set (transactions st). Some (reference t) \<noteq> m_originalReference md))
            \<longrightarrow> snd (webhook hmac stringify secret req st) = st)"
proof -
  let ?st' = "snd (webhook hmac stringify secret req st)"
  from webhook_transfer_success_cases [OF ev, of hmac stringify secret st]
  show ?thesis
  proof
    assume "?st' = st"
    then show ?thesis by simp
  next
    assume "\<exists>d md. ev_data (body req) = Some d \<and> d_metadata d = Some md \<and> notEmpty (m_userId md)
            \<and> ?st' = Transaction_findOneAndUpdate_status
                    (\<lambda>t. Some (reference t) = m_originalReference md) Successful st"
    then obtain d md where d: "ev_data (body req) = Some d" "d_metadata d = Some md"
      "notEmpty (m_userId md)"
      and e: "?st' = Transaction_findOneAndUpdate_status
                    (\<lambda>t. Some (reference t) = m_originalReference md) Successful st"
      by blast
    let ?P = "\<lambda>t. Some (reference t) = m_originalReference md"
    note fr = findOneAndUpdate_status_frame [of ?P Successful st]
    have nth: "transactions ?st' ! j = transactions st ! j
         \<or> (find_index_of ?P (transactions st) = Some j
            \<and> m_originalReference md = Some (reference (transactions st ! j))
            \<and> transactions ?st' ! j = (transactions st ! j)\<lparr>status := Successful\<rparr>)"
      if "j < length (transactions st)" for j
      using findOneAndUpdate_status_nth [OF that, of ?P Successful] by (auto simp: e)
    have one: "j = k"
      if "j < length (transactions st)" "k < length (transactions st)"
        "transactions ?st' ! j \<noteq> transactions st ! j" "transactions ?st' ! k \<noteq> transactions st ! k"
      for j k
      using nth [OF that(1)] nth [OF that(2)] that(3,4) by auto
    have unchanged: "?st' = st"
      if "\<forall>d md. ev_data (body req) = Some d \<and> d_metadata d = Some md
              \<longrightarrow> \<not> notEmpty (m_userId md)
                  \<or> (\<forall>t \<in> set (transactions st). Some (reference t) \<noteq> m_originalReference md)"
    proof -
      from that d have "\<forall>t \<in> set (transactions st). \<not> ?P t" by blast
      then show ?thesis by (simp add: e findOneAndUpdate_status_no_match)
    qed
    from fr nth one unchanged d show ?thesis
      by (simp add: e) blast
  qed
qed

theorem transfer_success_frame_witness:
  "users (snd (webhook example_hmac example_stringify ''sk''
          (signed_request example_hmac example_stringify ''sk''
             (transfer_event ''transfer.success'' 10000
                (Some \<lparr>m_userId = Some ''A'', m_originalReference = Some ''TRF_1''\<rparr>)))
          example_pending_ledger))
     = users example_pending_ledger
   \<and> transactions (snd (webhook example_hmac example_stringify ''sk''
          (signed_request example_hmac example_stringify ''sk''
             (transfer_event ''transfer.success'' 10000
                (Some \<lparr>m_userId = Some ''A'', m_originalReference = Some ''TRF_1''\<rparr>)))
          example_pending_ledger))
     = [example_send_tx, example_receive_tx]
   \<and> status (transactions example_pending_ledger ! 0) = Pending"
proof -
  let ?req = "signed_request example_hmac example_stringify ''sk''
             (transfer_event ''transfer.success'' 10000
                (Some \<lparr>m_userId = Some ''A'', m_originalReference = Some ''TRF_1''\<rparr>))"
  have e: "ev_event (body ?req) = ''transfer.success''"
    by (simp add: signed_request_def transfer_event_def)
  from transfer_success_frame [OF e, of example_hmac example_stringify "''sk''" example_pending_ledger]
  have u: "users (snd (webhook example_hmac example_stringify ''sk'' ?req example_pending_ledger))
            = users example_pending_ledger"
    by simp
  have "transactions (snd (webhook example_hmac example_stringify ''sk'' ?req example_pending_ledger))
          = [example_send_tx, example_receive_tx]"
    unfolding webhook_signed
    by (simp add: dispatch_def transfer_event_def example_pending_ledger_def success_on_example_ledger)
       (simp add: example_send_tx_def)
  with u show ?thesis by (simp add: example_pending_ledger_def)
qed

section \<open>Compensation uses the stored amount\<close>

text \<open>
  What holds of the compensation. Two verified \<open>transfer.failed\<close> (or two verified
  \<open>transfer.reversed\<close>) events with the same reference lead to the same store whatever
  amounts they carry. A balance either stays as it was or becomes the double sum or
  difference of the balance and the stored amount of the record the reference resolves
  to. For \<open>transfer.failed\<close> on a record that passes validation, the owner of the record
  is credited the stored amount and no other balance moves.
\<close>

theorem compensation_ignores_event_amount:
  assumes sig: "signature req1 = Some (hmac secret (signed_payload stringify req1))"
               "signature req2 = Some (hmac secret (signed_payload stringify req2))"
    and kind: "ev_event (body req1) = ev_event (body req2)"
              "ev_event (body req1) = ''transfer.failed'' \<or> ev_event (body req1) = ''transfer.reversed''"
    and data: "ev_data (body req1) = Some d1" "ev_data (body req2) = Some d2"
    and ref: "d_reference d1 = d_reference d2"
  shows "snd (webhook hmac stringify secret req1 st) = snd (webhook hmac stringify secret req2 st)
       \<and> (\<forall>u. balance_of u (snd (webhook hmac stringify secret req1 st)) = balance_of u st
            \<or> (\<exists>i. Transaction_findOne (\<lambda>t. reference t = d_reference d1) st = Some i
                 \<and> (balance_of u (snd (webhook hmac stringify secret req1 st))
                       = map_option (\<lambda>b. js_add b (amount (transactions st ! i))) (balance_of u st)
                    \<or> balance_of u (snd (webhook hmac stringify secret req1 st))
                       = map_option (\<lambda>b. js_sub b (amount (transactions st ! i))) (balance_of u st))))
       \<and> (\<forall>i. ev_event (body req1) = ''transfer.failed''
              \<and> Transaction_findOne (\<lambda>t. reference t = d_reference d1) st = Some i
              \<and> TransactionSchema_valid ((transactions st ! i)\<lparr>status := Failed\<rparr>)
            \<longrightarrow> (\<forall>u. balance_of u (snd (webhook hmac stringify secret req1 st))
                       = (if u = userId (transactions st ! i)
                          then map_option (\<lambda>b. js_add b (amount (transactions st ! i))) (balance_of u st)
                          else balance_of u st)))"
proof -
  from kind(2) show ?thesis
  proof
    assume f: "ev_event (body req1) = ''transfer.failed''"
    with kind(1) have f2: "ev_event (body req2) = ''transfer.failed''" by simp
    have w1: "snd (webhook hmac stringify secret req1 st) = handleFailedTransfer d1 st"
      by (simp add: webhook_verified [where hmac = hmac and secret = secret and stringify = stringify, OF sig(1)] dispatch_failed [OF f data(1)])
    have w2: "snd (webhook hmac stringify secret req2 st) = handleFailedTransfer d2 st"
      by (simp add: webhook_verified [where hmac = hmac and secret = secret and stringify = stringify, OF sig(2)] dispatch_failed [OF f2 data(2)])
    have eq: "handleFailedTransfer d1 st = handleFailedTransfer d2 st"
      by (rule handleFailedTransfer_reference [OF ref])
    have delta: "balance_of u (handleFailedTransfer d1 st) = balance_of u st
            \<or> (\<exists>i. Transaction_findOne (\<lambda>t. reference t = d_reference d1) st = Some i
                 \<and> (balance_of u (handleFailedTransfer d1 st)
                       = map_option (\<lambda>b. js_add b (amount (transactions st ! i))) (balance_of u st)
                    \<or> balance_of u (handleFailedTransfer d1 st)
                       = map_option (\<lambda>b. js_sub b (amount (transactions st ! i))) (balance_of u st)))" for u
    proof (cases "Transaction_findOne (\<lambda>t. reference t = d_reference d1) st")
      case None
      then show ?thesis by (simp add: handleFailedTransfer_not_found)
    next
      case (Some i)
      from handleFailedTransfer_balance [OF Some] show ?thesis
      proof
        assume "handleFailedTransfer d1 st = st"
        then show ?thesis by simp
      next
        assume "\<forall>u. balance_of u (handleFailedTransfer d1 st)
              = (if u = userId (transactions st ! i)
                 then map_option (\<lambda>b. js_add b (amount (transactions st ! i))) (balance_of u st)
                 else balance_of u st)"
        with Some show ?thesis by (cases "u = userId (transactions st ! i)") simp_all
      qed
    qed
    from eq delta handleFailedTransfer_refund [of d1 st] show ?thesis
      by (simp add: w1 w2)
  next
    assume r: "ev_event (body req1) = ''transfer.reversed''"
    with kind(1) have r2: "ev_event (body req2) = ''transfer.reversed''" by simp
    have "snd (webhook hmac stringify secret req1 st) = st"
      by (simp add: webhook_verified [where hmac = hmac and secret = secret and stringify = stringify, OF sig(1)] dispatch_reversed [OF r data(1)]
            handleReversedTransfer_rejected)
    moreover have "snd (webhook hmac stringify secret req2 st) = st"
      by (simp add: webhook_verified [where hmac = hmac and secret = secret and stringify = stringify, OF sig(2)] dispatch_reversed [OF r2 data(2)]
            handleReversedTransfer_rejected)
    ultimately show ?thesis using r by simp
  qed
qed

theorem compensation_ignores_event_amount_witness:
  "snd (webhook example_hmac example_stringify ''sk''
          (signed_request example_hmac example_stringify ''sk'' (transfer_event ''transfer.failed'' 1 None))
          example_ledger)
   = snd (webhook example_hmac example_stringify ''sk''
          (signed_request example_hmac example_stringify ''sk'' (transfer_event ''transfer.failed'' 99999900 None))
          example_ledger)
   \<and> amount (transactions example_ledger ! 0) = 100
   \<and> balance_of ''A'' example_ledger = Some 400
   \<and> balance_of ''A''
       (snd (webhook example_hmac example_stringify ''sk''
          (signed_request example_hmac example_stringify ''sk'' (transfer_event ''transfer.failed'' 99999900 None))
          example_ledger)) = Some 500"
proof -
  let ?r1 = "signed_request example_hmac example_stringify ''sk'' (transfer_event ''transfer.failed'' 1 None)"
  let ?r2 = "signed_request example_hmac example_stringify ''sk'' (transfer_event ''transfer.failed'' 99999900 None)"
  have f: "Transaction_findOne (\<lambda>t. reference t = ''TRF_1'') example_ledger = Some 0"
    by (simp add: Transaction_findOne_def example_ledger_def example_send_tx_def)
  have v: "TransactionSchema_valid ((transactions example_ledger ! 0)\<lparr>status := Failed\<rparr>)"
    by (simp add: example_ledger_def example_send_tx_def TransactionSchema_valid_def
          status_enum_def transactionType_enum_def)
  have t: "transactions example_ledger ! 0 = example_send_tx"
    by (simp add: example_ledger_def)
  have b: "balance_of ''A'' example_ledger = Some 400"
    by (simp add: example_ledger_def balance_of_def User_findById_def example_store_def example_user_def)
  let ?d1 = "\<lparr>d_reference = ''TRF_1'', d_amount = 99999900, d_reason = None, d_metadata = None\<rparr>"
  let ?d2 = "\<lparr>d_reference = ''TRF_1'', d_amount = 1, d_reason = None, d_metadata = None\<rparr>"
  have hyps: "signature ?r2 = Some (example_hmac ''sk'' (signed_payload example_stringify ?r2))"
    "signature ?r1 = Some (example_hmac ''sk'' (signed_payload example_stringify ?r1))"
    "ev_event (body ?r2) = ev_event (body ?r1)"
    "ev_event (body ?r2) = ''transfer.failed'' \<or> ev_event (body ?r2) = ''transfer.reversed''"
    "ev_data (body ?r2) = Some ?d1" "ev_data (body ?r1) = Some ?d2"
    "d_reference ?d1 = d_reference ?d2"
    by (simp_all add: signed_request_def signed_payload_def transfer_event_def)
  note T = compensation_ignores_event_amount [where hmac = example_hmac
      and stringify = example_stringify and secret = "''sk''" and st = example_ledger, OF hyps]
  from T have e: "snd (webhook example_hmac example_stringify ''sk'' ?r2 example_ledger)
          = snd (webhook example_hmac example_stringify ''sk'' ?r1 example_ledger)"
    by blast
  have k: "ev_event (body ?r2) = ''transfer.failed''"
    by (simp add: signed_request_def transfer_event_def)
  from f have f': "Transaction_findOne (\<lambda>t. reference t = d_reference ?d1) example_ledger = Some 0"
    by simp
  from T k f' v
  have "balance_of ''A'' (snd (webhook example_hmac example_stringify ''sk'' ?r2 example_ledger))
          = (if ''A'' = userId (transactions example_ledger ! 0)
             then map_option (\<lambda>b. js_add b (amount (transactions example_ledger ! 0))) (balance_of ''A'' example_ledger)
             else balance_of ''A'' example_ledger)"
    by blast
  then have "balance_of ''A'' (snd (webhook example_hmac example_stringify ''sk'' ?r2 example_ledger))
          = Some 500"
    by (simp add: t b example_send_tx_def js_eval)
  with e b t show ?thesis by (simp add: example_send_tx_def)
qed

text \<open>
  Claim C9, at the input where it fails. The record of the settled transfer of 100 from A
  to B is found by a verified \<open>transfer.reversed\<close> event. The handler sets its status to
  \<open>reversed\<close>, which the schema's enum does not list, so the save throws and the handler
  returns before the refund of the sender and the debit of the recipient that follow in
  its code: the store is the one the event found, A still holds 400, B still holds 600 and
  the record is still \<open>successful\<close>. No compensation of the stored amount is applied.
\<close>

theorem reversed_transfer_applies_no_compensation:
  "Transaction_findOne (\<lambda>t. reference t = ''TRF_1'') example_ledger = Some 0
   \<and> amount (transactions example_ledger ! 0) = 100
   \<and> userId (transactions example_ledger ! 0) = ''A''
   \<and> recipientId (transactions example_ledger ! 0) = Some ''B''
   \<and> snd (webhook hmac stringify secret
            (signed_request hmac stringify secret (transfer_event ''transfer.reversed'' 10000 None))
            example_ledger) = example_ledger
   \<and> balance_of ''A'' example_ledger = Some 400
   \<and> balance_of ''B'' example_ledger = Some 600
   \<and> map status (transactions example_ledger) = [Successful, Successful]"
  unfolding webhook_signed
  by (simp add: dispatch_def transfer_event_def handleReversedTransfer_rejected
        Transaction_findOne_def example_ledger_def example_send_tx_def example_receive_tx_def
        balance_of_def User_findById_def example_store_def example_user_def)

section \<open>A transfer.failed event delivered twice\<close>

text \<open>
  Claim C1, at the input where it fails. After a provider-backed transfer of 100 from A
  (500) to B, A holds 400. One verified \<open>transfer.failed\<close> event for that transfer brings
  A to 500; the same event delivered again brings A to 600: the second delivery refunds a
  second time. The handler never looks at the status of the record it finds.
\<close>

theorem failed_transfer_delivered_twice:
  "payments_transfer None (Some example_transfer_response) ''A'' (Some ''B'') (Some 100) None
     (example_store 500 500) = (Reply 200 ''TRF_1'', example_ledger)
   \<and> balance_of ''A'' example_ledger = Some 400
   \<and> balance_of ''A''
        (snd (webhook hmac stringify secret
                (signed_request hmac stringify secret (transfer_event ''transfer.failed'' 10000 None))
                example_ledger)) = Some 500
   \<and> balance_of ''A''
        (snd (webhook hmac stringify secret
                (signed_request hmac stringify secret (transfer_event ''transfer.failed'' 10000 None))
                (snd (webhook hmac stringify secret
                        (signed_request hmac stringify secret (transfer_event ''transfer.failed'' 10000 None))
                        example_ledger)))) = Some 600"
proof -
  have l: "example_ledger = (example_store 400 600)\<lparr>transactions := [example_send_tx\<lparr>status := Successful\<rparr>, example_receive_tx]\<rparr>"
    by (simp add: example_ledger_def example_send_tx_def)
  have b: "balance_of ''A'' (example_store a b) = Some a" for a b
    by (simp add: balance_of_def User_findById_def example_store_def example_user_def)
  show ?thesis
    unfolding webhook_signed
    by (simp add: example_ledger_reachable dispatch_def transfer_event_def)
       (simp add: l failed_on_example_ledger b js_eval)
qed

section \<open>Status transitions from a settled record\<close>

text \<open>
  Claim C2, at the input where it fails. The record of a settled transfer is
  \<open>successful\<close>; a verified \<open>transfer.failed\<close> event for its reference sets it to
  \<open>failed\<close> and credits the owner (400 to 500), a transition from \<open>successful\<close> to
  \<open>failed\<close>; a verified \<open>transfer.success\<close> event then sets the failed record back to
  \<open>successful\<close>.
\<close>

theorem transition_from_successful_applied:
  "map status (transactions example_ledger) = [Successful, Successful]
   \<and> map status (transactions
        (snd (webhook hmac stringify secret
                (signed_request hmac stringify secret (transfer_event ''transfer.failed'' 10000 None))
                example_ledger))) = [Failed, Successful]
   \<and> balance_of ''A'' example_ledger = Some 400
   \<and> balance_of ''A''
        (snd (webhook hmac stringify secret
                (signed_request hmac stringify secret (transfer_event ''transfer.failed'' 10000 None))
                example_ledger)) = Some 500
   \<and> map status (transactions
        (snd (webhook hmac stringify secret
                (signed_request hmac stringify secret
                   (transfer_event ''transfer.success'' 10000
                      (Some \<lparr>m_userId = Some ''A'', m_originalReference = Some ''TRF_1''\<rparr>)))
                (snd (webhook hmac stringify secret
                        (signed_request hmac stringify secret (transfer_event ''transfer.failed'' 10000 None))
                        example_ledger))))) = [Successful, Successful]"
proof -
  have l: "example_ledger = (example_store 400 600)\<lparr>transactions := [example_send_tx\<lparr>status := Successful\<rparr>, example_receive_tx]\<rparr>"
    by (simp add: example_ledger_def example_send_tx_def)
  have b: "balance_of ''A'' (example_store a b) = Some a" for a b
    by (simp add: balance_of_def User_findById_def example_store_def example_user_def)
  have s: "status example_send_tx = Successful" "status example_receive_tx = Successful"
    by (simp_all add: example_send_tx_def example_receive_tx_def)
  show ?thesis
    unfolding webhook_signed
    by (simp add: dispatch_def transfer_event_def)
       (simp add: l failed_on_example_ledger success_on_example_ledger b s js_eval)
qed

section \<open>What the webhook signature covers\<close>

text \<open>
  Claim C3, at the input where it fails. The reply and the store do not depend on the
  bytes received: the hashed message is the re-serialised \<open>req.body\<close>. For the bytes
  \<open>{"event": "ping"}\<close>, whose parsed body re-serialises without the space, a signature
  computed over the bytes received is rejected, and a signature computed over the
  re-serialised text is accepted.
\<close>

theorem signature_not_over_raw_bytes:
  \<open>webhook hmac stringify secret (req\<lparr>raw := bytes\<rparr>) st = webhook hmac stringify secret req st
   \<and> signed_payload example_stringify
        \<lparr>raw = ''{"event": "ping"}'', body = \<lparr>ev_event = ''ping'', ev_data = None\<rparr>, signature = s\<rparr>
      = ''{"event":"ping"}''
   \<and> webhook example_hmac example_stringify ''sk''
        \<lparr>raw = ''{"event": "ping"}'', body = \<lparr>ev_event = ''ping'', ev_data = None\<rparr>,
         signature = Some (example_hmac ''sk'' ''{"event": "ping"}'')\<rparr> st
      = (Reply 400 ''Invalid signature'', st)
   \<and> webhook example_hmac example_stringify ''sk''
        \<lparr>raw = ''{"event": "ping"}'', body = \<lparr>ev_event = ''ping'', ev_data = None\<rparr>,
         signature = Some (example_hmac ''sk'' ''{"event":"ping"}'')\<rparr> st
      = (Reply 200 ''Webhook received'', st)\<close>
  by (simp add: webhook_def signed_payload_def example_stringify_def example_hmac_def dispatch_def)

section \<open>Amounts that are not positive\<close>

text \<open>
  Claim C4, at the input where it fails. The ledger routes check only that the amount is
  numeric. A transfer of -100 from A (500) to B (500) with a valid PIN is committed: A
  holds 575, B holds 400, and two successful records with amount -100 are stored. A
  deposit of -50 is committed as well and lowers the balance to 450.
\<close>

theorem negative_amount_is_committed:
  "transfer example_comparePin ''9f8e7d6c-0000'' ''A''
     \<lparr>t_recipientId = Some ''B'', t_amount = Some (- 100), t_purpose = Some ''rent'', t_pin = Some ''1234''\<rparr>
     (example_store 500 500)
   = (Reply 200 ''TRX-9f8e7d6c'',
      (example_store 575 400)
        \<lparr>transactions :=
           [\<lparr>userId = ''A'', transactionType = Send, amount = - 100, fee = 25, status = Successful,
             recipientId = Some ''B'', recipientName = Some ''Bob Doe'',
             recipientCecureTag = Some ''@Bob'', recipientBank = None, recipientAccount = None,
             purpose = Some ''rent'', reference = ''TRX-9f8e7d6c''\<rparr>,
            \<lparr>userId = ''B'', transactionType = Receive, amount = - 100, fee = 0, status = Successful,
             recipientId = Some ''A'', recipientName = Some ''Ada Doe'',
             recipientCecureTag = None, recipientBank = None, recipientAccount = None,
             purpose = Some ''rent'', reference = ''TRX-9f8e7d6c-RCV''\<rparr>]\<rparr>)
   \<and> balance_of ''A'' (example_store 575 400) = Some 575
   \<and> balance_of ''B'' (example_store 575 400) = Some 400
   \<and> snd (deposit ''9f8e7d6c-0000'' ''A'' (Some (- 50)) (Some ''card'') (example_store 500 500))
     = (example_store 450 500)
         \<lparr>transactions := [deposit_tx ''A'' (- 50) ''Deposit via card'' ''DEP-9f8e7d6c'']\<rparr>"
  by (simp add: transfer_def transfer_checks_def notEmpty_def example_store_def example_user_def
        example_comparePin_def User_findById_def Let_def transfer_fee_def User_save_balance_def
        Transaction_create_def TransactionSchema_valid_def status_enum_def transactionType_enum_def
        fullName_def balance_of_def deposit_def deposit_tx_def js_eval)

section \<open>The status of a record at creation\<close>

lemma created_same [simp]: "transactions st' = transactions st \<Longrightarrow> created st st' = []"
  by (simp add: created_def)

lemma created_length: "length (transactions st') = length (transactions st) \<Longrightarrow> created st st' = []"
  by (simp add: created_def)

lemma transfer_created:
  "list_all (\<lambda>t. status t = Successful) (created st (snd (transfer comparePin uuid uid b st)))"
  by (auto simp: created_def transfer_def Let_def Transaction_create_def
      split: option.splits if_splits)

lemma debit_to_bank_created:
  "list_all (\<lambda>t. status t = Successful) (created st (snd (debit_to_bank prefix ty label comparePin uuid uid b st)))"
  by (auto simp: created_def debit_to_bank_def Let_def Transaction_create_def
        save_beneficiary_and_commit_def Beneficiary_create_def
      split: option.splits if_splits)

lemma deposit_created:
  "list_all (\<lambda>t. status t = Successful) (created st (snd (deposit uuid uid a m st)))"
  by (auto simp: created_def deposit_def Let_def Transaction_create_def deposit_tx_def
      split: option.splits if_splits)

lemma confirm_deposit_created:
  "list_all (\<lambda>t. status t = Successful) (created st (snd (confirm_deposit uid r a st)))"
  by (auto simp: created_def confirm_deposit_def Let_def Transaction_create_def deposit_tx_def
      split: option.splits if_splits)

lemma payments_charge_card_created:
  "list_all (\<lambda>t. status t = Successful) (created st (snd (payments_charge_card cf cr uid a e c st)))"
  by (auto simp: created_def payments_charge_card_def Let_def Transaction_create_def deposit_tx_def
      split: option.splits if_splits)

lemma payments_callback_created:
  "list_all (\<lambda>t. status t = Successful) (created st (snd (payments_callback pr r st)))"
  by (auto simp: created_def payments_callback_def Let_def Transaction_create_def deposit_tx_def
      split: option.splits if_splits)

lemma payments_transfer_created:
  "list_all (\<lambda>t. status t = Successful) (created st (snd (payments_transfer rr tr uid rid a reason st)))"
  by (auto simp: created_def payments_transfer_def Let_def Transaction_create_def
      split: option.splits if_splits)

lemma handleSuccessfulPayment_created:
  "list_all (\<lambda>t. status t = Successful) (created st (handleSuccessfulPayment d st))"
  by (auto simp: created_def handleSuccessfulPayment_def Let_def Transaction_create_def deposit_tx_def
      split: option.splits if_splits)

lemma webhook_created:
  "list_all (\<lambda>t. status t = Successful) (created st (snd (webhook hmac stringify secret req st)))"
proof -
  have "list_all (\<lambda>t. status t = Successful) (created st (dispatch e st))" for e
    using handleSuccessfulPayment_created
    by (auto simp: dispatch_def handleReversedTransfer_rejected created_length
          handleFailedTransfer_length handleSuccessfulTransfer_def findOneAndUpdate_status_frame
        split: option.splits)
  then show ?thesis by (simp add: webhook_def)
qed

lemma bank_transfer_initiate_created:
  "list_all (\<lambda>t. status t = Pending) (created st (snd (bank_transfer_initiate uid a r st)))"
  by (auto simp: created_def bank_transfer_initiate_def Let_def Transaction_create_def deposit_tx_def
      split: option.splits if_splits)

lemma payments_withdraw_creates_nothing:
  "created st (snd (payments_withdraw rr tr uid a bc an nm nar st)) = []"
  by (auto simp: created_def payments_withdraw_def Let_def Transaction_create_def
        TransactionSchema_valid_def transactionType_enum_def
      split: option.splits if_splits)

text \<open>A route that answers 200 has stored its records.\<close>

lemma transfer_ok_created:
  "ok (fst (transfer comparePin uuid uid b st))
     \<Longrightarrow> length (created st (snd (transfer comparePin uuid uid b st))) = 2"
  by (auto simp: ok_def created_def transfer_def Let_def Transaction_create_def
      split: option.splits if_splits)

lemma debit_to_bank_ok_created:
  "ok (fst (debit_to_bank prefix ty label comparePin uuid uid b st))
     \<Longrightarrow> length (created st (snd (debit_to_bank prefix ty label comparePin uuid uid b st))) = 1"
  by (auto simp: ok_def created_def debit_to_bank_def Let_def Transaction_create_def
        save_beneficiary_and_commit_def Beneficiary_create_def
      split: option.splits if_splits)

lemma deposit_ok_created:
  "ok (fst (deposit uuid uid a m st)) \<Longrightarrow> length (created st (snd (deposit uuid uid a m st))) = 1"
  by (auto simp: ok_def created_def deposit_def Let_def Transaction_create_def
      split: option.splits if_splits)

lemma confirm_deposit_ok_created:
  "ok (fst (confirm_deposit uid r a st))
     \<Longrightarrow> length (created st (snd (confirm_deposit uid r a st))) = 1"
  by (auto simp: ok_def created_def confirm_deposit_def Let_def Transaction_create_def
      split: option.splits if_splits)

lemma bank_transfer_initiate_ok_created:
  "ok (fst (bank_transfer_initiate uid a r st))
     \<Longrightarrow> length (created st (snd (bank_transfer_initiate uid a r st))) = 1"
  by (auto simp: ok_def created_def bank_transfer_initiate_def Let_def Transaction_create_def
      split: option.splits if_splits)

lemma payments_transfer_ok_created:
  "ok (fst (payments_transfer rr tr uid rid a reason st))
     \<Longrightarrow> length (created st (snd (payments_transfer rr tr uid rid a reason st))) = 2"
  by (auto simp: ok_def created_def payments_transfer_def Let_def Transaction_create_def
      split: option.splits if_splits)

lemma payments_charge_card_ok_created:
  "ok (fst (payments_charge_card cf cr uid a e c st))
     \<Longrightarrow> length (created st (snd (payments_charge_card cf cr uid a e c st))) = 1"
  by (auto simp: ok_def created_def payments_charge_card_def Let_def Transaction_create_def
      split: option.splits if_splits)

lemma findOne_fresh:
  "r \<notin> reference ` set (transactions st) \<Longrightarrow> Transaction_findOne (\<lambda>t. reference t = r) st = None"
  by (auto simp: Transaction_findOne_def find_index_of_None)

lemma payments_callback_creates:
  assumes "paystackResponse = Some pr" "v_status pr = ''success''" "v_userId pr = Some u" "u \<noteq> []"
    and "User_findById u st = Some usr" "reference_field = Some r" "r \<noteq> []"
    and "r \<notin> reference ` set (transactions st)"
  shows "length (created st (snd (payments_callback paystackResponse reference_field st))) = 1"
  using assms findOne_fresh [OF assms(8)]
  by (simp add: created_def payments_callback_def missing_def notEmpty_def Let_def
        Transaction_create_def TransactionSchema_valid_def status_enum_def
        transactionType_enum_def deposit_tx_def)

lemma handleSuccessfulPayment_creates:
  assumes "d_metadata d = Some md" "m_userId md = Some u" "u \<noteq> []"
    and "User_findById u st = Some usr" "d_reference d \<noteq> []"
    and "d_reference d \<notin> reference ` set (transactions st)"
  shows "length (created st (handleSuccessfulPayment d st)) = 1"
  using assms findOne_fresh [OF assms(6)]
  by (simp add: created_def handleSuccessfulPayment_def notEmpty_def Let_def
        Transaction_create_def TransactionSchema_valid_def status_enum_def
        transactionType_enum_def deposit_tx_def)

lemma webhook_charge_success_creates:
  assumes "signature req = Some (hmac secret (signed_payload stringify req))"
    and "ev_event (body req) = ''charge.success''" "ev_data (body req) = Some d"
    and "d_metadata d = Some md" "m_userId md = Some u" "u \<noteq> []"
    and "User_findById u st = Some usr" "d_reference d \<noteq> []"
    and "d_reference d \<notin> reference ` set (transactions st)"
  shows "length (created st (snd (webhook hmac stringify secret req st))) = 1"
proof -
  from assms(1,2,3) have "snd (webhook hmac stringify secret req st) = handleSuccessfulPayment d st"
    by (simp add: webhook_def dispatch_def)
  with handleSuccessfulPayment_creates [OF assms(4-9)] show ?thesis by simp
qed

text \<open>
  Claim C8 as stated fails: the ledger route \<open>/withdraw\<close> (a withdrawal to a bank
  account) and the provider-backed transfer of the payment routes create their records with
  status \<open>successful\<close>.
\<close>

theorem provider_settled_records_created_successful:
  "map status (transactions (snd (withdraw example_comparePin ''9f8e7d6c-0000'' ''A''
      \<lparr>b_bankDetails = Some example_bankDetails, b_amount = Some 100, b_pin = Some ''1234''\<rparr>
      (example_store 500 500)))) = [Successful]
   \<and> map status (transactions (snd (payments_transfer None (Some example_transfer_response)
      ''A'' (Some ''B'') (Some 100) None (example_store 500 500)))) = [Successful, Successful]"
  by (simp add: example_ledger_reachable)
     (simp add: withdraw_def debit_to_bank_def bank_checks_def notEmpty_def example_store_def
        example_user_def example_comparePin_def example_bankDetails_def User_findById_def Let_def
        transfer_fee_def User_save_balance_def Transaction_create_def TransactionSchema_valid_def
        status_enum_def transactionType_enum_def save_beneficiary_and_commit_def
        example_ledger_def example_send_tx_def example_receive_tx_def js_eval)

text \<open>
  Claim C8, amended. Every record created by the bank-transfer deposit initiation is
  created \<open>pending\<close>; every record created by the ledger routes (transfer, bank transfer,
  withdraw, deposit, confirm deposit), by the provider-backed transfer, the card charge,
  the payment callback or the webhook is created \<open>successful\<close>. Each of these routes that
  answers 200 has created its records: two for a transfer, one otherwise. The callback on
  a successful verification, and the webhook on a verified \<open>charge.success\<close> event, create
  one record when the user exists and the reference is not empty and not taken.
\<close>

theorem status_at_creation:
  "list_all (\<lambda>t. status t = Pending) (created st (snd (bank_transfer_initiate uid amount_field reference_field st)))
   \<and> list_all (\<lambda>t. status t = Successful) (created st (snd (transfer comparePin uuid uid tb st)))
   \<and> list_all (\<lambda>t. status t = Successful) (created st (snd (bank_transfer comparePin uuid uid bb st)))
   \<and> list_all (\<lambda>t. status t = Successful) (created st (snd (withdraw comparePin uuid uid bb st)))
   \<and> list_all (\<lambda>t. status t = Successful) (created st (snd (deposit uuid uid amount_field method st)))
   \<and> list_all (\<lambda>t. status t = Successful) (created st (snd (confirm_deposit uid reference_field amount_field st)))
   \<and> list_all (\<lambda>t. status t = Successful)
       (created st (snd (payments_transfer recipientResponse transferResponse uid recipientId_field
                           amount_field reason st)))
   \<and> list_all (\<lambda>t. status t = Successful)
       (created st (snd (payments_charge_card cardFound chargeResponse uid amount_field email cardId st)))
   \<and> list_all (\<lambda>t. status t = Successful) (created st (snd (payments_callback paystackResponse reference_field st)))
   \<and> list_all (\<lambda>t. status t = Successful) (created st (snd (webhook hmac stringify secret req st)))
   \<and> (ok (fst (bank_transfer_initiate uid amount_field reference_field st)) \<longrightarrow>
         length (created st (snd (bank_transfer_initiate uid amount_field reference_field st))) = 1)
   \<and> (ok (fst (transfer comparePin uuid uid tb st)) \<longrightarrow>
         length (created st (snd (transfer comparePin uuid uid tb st))) = 2)
   \<and> (ok (fst (bank_transfer comparePin uuid uid bb st)) \<longrightarrow>
         length (created st (snd (bank_transfer comparePin uuid uid bb st))) = 1)
   \<and> (ok (fst (withdraw comparePin uuid uid bb st)) \<longrightarrow>
         length (created st (snd (withdraw comparePin uuid uid bb st))) = 1)
   \<and> (ok (fst (deposit uuid uid amount_field method st)) \<longrightarrow>
         length (created st (snd (deposit uuid uid amount_field method st))) = 1)
   \<and> (ok (fst (confirm_deposit uid reference_field amount_field st)) \<longrightarrow>
         length (created st (snd (confirm_deposit uid reference_field amount_field st))) = 1)
   \<and> (ok (fst (payments_transfer recipientResponse transferResponse uid recipientId_field
                  amount_field reason st)) \<longrightarrow>
         length (created st (snd (payments_transfer recipientResponse transferResponse uid
                                    recipientId_field amount_field reason st))) = 2)
   \<and> (ok (fst (payments_charge_card cardFound chargeResponse uid amount_field email cardId st)) \<longrightarrow>
         length (created st (snd (payments_charge_card cardFound chargeResponse uid amount_field
                                    email cardId st))) = 1)
   \<and> (paystackResponse = Some pr \<and> v_status pr = ''success'' \<and> v_userId pr = Some u \<and> u \<noteq> []
        \<and> User_findById u st = Some usr \<and> reference_field = Some r \<and> r \<noteq> []
        \<and> r \<notin> reference ` set (transactions st) \<longrightarrow>
         length (created st (snd (payments_callback paystackResponse reference_field st))) = 1)
   \<and> (signature req = Some (hmac secret (signed_payload stringify req))
        \<and> ev_event (body req) = ''charge.success'' \<and> ev_data (body req) = Some d
        \<and> d_metadata d = Some md \<and> m_userId md = Some u \<and> u \<noteq> []
        \<and> User_findById u st = Some usr \<and> d_reference d \<noteq> []
        \<and> d_reference d \<notin> reference ` set (transactions st) \<longrightarrow>
         length (created st (snd (webhook hmac stringify secret req st))) = 1)"
  using payments_callback_creates [of paystackResponse pr u st usr reference_field r]
    webhook_charge_success_creates [of req hmac secret stringify d md u st usr]
  by (simp add: bank_transfer_initiate_created transfer_created
        bank_transfer_def withdraw_def debit_to_bank_created deposit_created confirm_deposit_created
        payments_transfer_created payments_charge_card_created payments_callback_created
        webhook_created bank_transfer_initiate_ok_created transfer_ok_created
        debit_to_bank_ok_created deposit_ok_created confirm_deposit_ok_created
        payments_transfer_ok_created payments_charge_card_ok_created)

theorem status_at_creation_witness:
  "map status (created (example_store 0 0)
       (snd (bank_transfer_initiate ''A'' (Some 100) (Some ''BT-1'') (example_store 0 0))))
     = [Pending]
   \<and> map status (created (example_store 500 500)
       (snd (withdraw example_comparePin ''9f8e7d6c-0000'' ''A''
              \<lparr>b_bankDetails = Some example_bankDetails, b_amount = Some 100, b_pin = Some ''1234''\<rparr>
              (example_store 500 500))))
     = [Successful]
   \<and> map status (created (example_store 500 500)
       (snd (payments_transfer None (Some example_transfer_response) ''A'' (Some ''B'') (Some 100) None
              (example_store 500 500))))
     = [Successful, Successful]
   \<and> map status (created (example_store 0 0)
       (snd (webhook example_hmac example_stringify ''sk''
              (signed_request example_hmac example_stringify ''sk''
                 (transfer_event ''charge.success'' 10000
                    (Some \<lparr>m_userId = Some ''A'', m_originalReference = None\<rparr>)))
              (example_store 0 0))))
     = [Successful]"
proof -
  let ?i = "snd (bank_transfer_initiate ''A'' (Some 100) (Some ''BT-1'') (example_store 0 0))"
  let ?w = "snd (withdraw example_comparePin ''9f8e7d6c-0000'' ''A''
              \<lparr>b_bankDetails = Some example_bankDetails, b_amount = Some 100, b_pin = Some ''1234''\<rparr>
              (example_store 500 500))"
  let ?t = "snd (payments_transfer None (Some example_transfer_response) ''A'' (Some ''B'') (Some 100) None
              (example_store 500 500))"
  let ?c = "snd (webhook example_hmac example_stringify ''sk''
              (signed_request example_hmac example_stringify ''sk''
                 (transfer_event ''charge.success'' 10000
                    (Some \<lparr>m_userId = Some ''A'', m_originalReference = None\<rparr>)))
              (example_store 0 0))"
  have oki: "ok (fst (bank_transfer_initiate ''A'' (Some 100) (Some ''BT-1'') (example_store 0 0)))"
    by (simp add: ok_def bank_transfer_initiate_def falsy_def missing_def notEmpty_def
          example_store_def example_user_def User_findById_def Transaction_create_def
          TransactionSchema_valid_def status_enum_def transactionType_enum_def deposit_tx_def)
  have okw: "ok (fst (withdraw example_comparePin ''9f8e7d6c-0000'' ''A''
              \<lparr>b_bankDetails = Some example_bankDetails, b_amount = Some 100, b_pin = Some ''1234''\<rparr>
              (example_store 500 500)))"
    by (simp add: ok_def withdraw_def debit_to_bank_def bank_checks_def notEmpty_def
          example_store_def example_user_def example_comparePin_def example_bankDetails_def
          User_findById_def Let_def transfer_fee_def User_save_balance_def Transaction_create_def
          TransactionSchema_valid_def status_enum_def transactionType_enum_def
          save_beneficiary_and_commit_def js_eval)
  have okt: "ok (fst (payments_transfer None (Some example_transfer_response) ''A'' (Some ''B'')
              (Some 100) None (example_store 500 500)))"
    by (simp add: ok_def example_ledger_reachable)
  note T1 = status_at_creation [where st = "example_store 0 0" and uid = "''A''"
      and amount_field = "Some 100" and reference_field = "Some ''BT-1''"
      and hmac = example_hmac and stringify = example_stringify and secret = "''sk''"
      and req = "signed_request example_hmac example_stringify ''sk''
                 (transfer_event ''charge.success'' 10000
                    (Some \<lparr>m_userId = Some ''A'', m_originalReference = None\<rparr>))"]
  note T2 = status_at_creation [where st = "example_store 500 500" and uid = "''A''"
      and comparePin = example_comparePin and uuid = "''9f8e7d6c-0000''"
      and bb = "\<lparr>b_bankDetails = Some example_bankDetails, b_amount = Some 100, b_pin = Some ''1234''\<rparr>"
      and recipientResponse = None and transferResponse = "Some example_transfer_response"
      and recipientId_field = "Some ''B''" and amount_field = "Some 100" and reason = None]
  from T1 oki have i: "list_all (\<lambda>t. status t = Pending) (created (example_store 0 0) ?i)"
    "length (created (example_store 0 0) ?i) = 1"
    by simp_all
  from T2 okw have w: "list_all (\<lambda>t. status t = Successful) (created (example_store 500 500) ?w)"
    "length (created (example_store 500 500) ?w) = 1"
    by simp_all
  from T2 okt have t: "list_all (\<lambda>t. status t = Successful) (created (example_store 500 500) ?t)"
    "length (created (example_store 500 500) ?t) = 2"
    by simp_all
  have statuses: "map status xs = replicate (length xs) s" if "list_all (\<lambda>t. status t = s) xs"
    for xs :: "transaction list" and s
    using that by (induction xs) simp_all
  have c: "map status (created (example_store 0 0) ?c) = [Successful]"
    unfolding webhook_signed
    by (simp add: created_def dispatch_def transfer_event_def handleSuccessfulPayment_def
          notEmpty_def example_store_def example_user_def User_findById_def Transaction_findOne_def
          Let_def User_save_balance_def Transaction_create_def TransactionSchema_valid_def
          status_enum_def transactionType_enum_def deposit_tx_def)
  from statuses [OF i(1)] statuses [OF w(1)] statuses [OF t(1)] i(2) w(2) t(2) c
  show ?thesis by (simp add: numeral_2_eq_2)
qed

end
